theory Spec2Isabelle
  imports Main
begin

section \<open>Go values shared by the whole package\<close>

text \<open>
  A Go \<^verbatim>\<open>[]byte\<close> is a list of 8-bit characters; where the source distinguishes the
  nil slice from an empty one the model uses \<open>bytes option\<close> with \<open>None\<close> for nil.
\<close>

type_synonym bytes = string

text \<open>
  Go error values. \<open>ErrorString\<close> is what \<^verbatim>\<open>errors.New\<close> and a \<^verbatim>\<open>fmt.Errorf\<close> without
  \<^verbatim>\<open>%w\<close> build, \<open>WrapError p e\<close> is \<^verbatim>\<open>fmt.Errorf("<p>: %w", e)\<close>, \<open>TimeoutError\<close> is the
  struct of run.go, and the two context errors and the file-system error \<open>ErrNotExist\<close>
  are the standard library's sentinels. A nil error is \<open>None\<close> of \<open>error option\<close>, or the
  \<open>Inr\<close> side of a result.
\<close>

datatype error =
    ErrorString string
  | WrapError string error
  | TimeoutError (Operation: string) (Err: error)
  | DeadlineExceeded
  | Canceled
  | ErrNotExist

text \<open>The method \<^verbatim>\<open>Error()\<close>; \<^verbatim>\<open>%v\<close> and \<^verbatim>\<open>%w\<close> both print the cause's \<^verbatim>\<open>Error()\<close>.\<close>

fun Error :: "error \<Rightarrow> string" where
  "Error (ErrorString s) = s"
| "Error (WrapError p e) = p @ '': '' @ Error e"
| "Error (TimeoutError operation e) = ''timeout during '' @ operation @ '': '' @ Error e"
| "Error DeadlineExceeded = ''context deadline exceeded''"
| "Error Canceled = ''context canceled''"
| "Error ErrNotExist = ''file does not exist''"

fun Unwrap :: "error \<Rightarrow> error option" where
  "Unwrap (WrapError p e) = Some e"
| "Unwrap (TimeoutError operation e) = Some e"
| "Unwrap e = None"

text \<open>\<^verbatim>\<open>errors.Is(err, target)\<close>: walks the \<^verbatim>\<open>Unwrap\<close> chain of a possibly nil error.\<close>

fun is_chain :: "error \<Rightarrow> error \<Rightarrow> bool" where
  "is_chain (WrapError p e) target = (WrapError p e = target \<or> is_chain e target)"
| "is_chain (TimeoutError operation e) target =
     (TimeoutError operation e = target \<or> is_chain e target)"
| "is_chain e target = (e = target)"

fun errors_Is :: "error option \<Rightarrow> error \<Rightarrow> bool" where
  "errors_Is None target = False"
| "errors_Is (Some e) target = is_chain e target"

text \<open>\<^verbatim>\<open>errors.As(err, &timeoutErr)\<close> for the target type \<^verbatim>\<open>*TimeoutError\<close>.\<close>

fun as_TimeoutError :: "error \<Rightarrow> error option" where
  "as_TimeoutError (TimeoutError operation e) = Some (TimeoutError operation e)"
| "as_TimeoutError (WrapError p e) = as_TimeoutError e"
| "as_TimeoutError e = None"

text \<open>
  \<^verbatim>\<open>wrapTimeoutError(ctx, err, operation)\<close> of run.go. The first argument is the value of
  \<^verbatim>\<open>ctx.Err()\<close> at the moment of the call.
\<close>

definition wrapTimeoutError :: "error option \<Rightarrow> error option \<Rightarrow> string \<Rightarrow> error option" where
  "wrapTimeoutError ctx_err err operation =
     (case err of
        None \<Rightarrow> None
      | Some e \<Rightarrow>
          if errors_Is ctx_err DeadlineExceeded
          then Some (TimeoutError operation e)
          else Some (WrapError (''failed to '' @ operation) e))"

section \<open>Options\<close>

definition DefaultPattern :: string where
  "DefaultPattern = ''./...''"

definition DefaultSockPath :: string where
  "DefaultSockPath = ''/var/run/docker.sock''"

text \<open>A \<^verbatim>\<open>time.Duration\<close> counts nanoseconds.\<close>

type_synonym Duration = int

definition Second :: Duration where
  "Second = 1000000000"

definition Minute :: Duration where
  "Minute = 60 * Second"

definition DefaultTimeout :: Duration where
  "DefaultTimeout = 10 * Minute"

definition DefaultExecTimeout :: Duration where
  "DefaultExecTimeout = 10 * Minute"

definition DefaultCoverageFile :: string where
  "DefaultCoverageFile = ''/tmp/coverage.txt''"

record Options =
  PackagePath :: string
  Pattern :: string
  Args :: "string list"
  Aliases :: "string list"
  EnableVarSock :: bool
  SockPath :: string
  Timeout :: Duration

text \<open>An \<^verbatim>\<open>Option\<close> is a function that mutates the options; here it returns the new value.\<close>

type_synonym Option = "Options \<Rightarrow> Options"

definition WithPattern :: "string \<Rightarrow> Option" where
  "WithPattern pattern = (\<lambda>opts. opts\<lparr>Pattern := pattern\<rparr>)"

definition WithArgs :: "string list \<Rightarrow> Option" where
  "WithArgs args = (\<lambda>opts. opts\<lparr>Args := Args opts @ args\<rparr>)"

definition WithAliases :: "string list \<Rightarrow> Option" where
  "WithAliases aliases = (\<lambda>opts. opts\<lparr>Aliases := Aliases opts @ aliases\<rparr>)"

definition WithVarSock :: Option where
  "WithVarSock = (\<lambda>opts. opts\<lparr>EnableVarSock := True\<rparr>)"

definition WithSockPath :: "string \<Rightarrow> Option" where
  "WithSockPath path = (\<lambda>opts. opts\<lparr>SockPath := path\<rparr>)"

definition WithTimeout :: "Duration \<Rightarrow> Option" where
  "WithTimeout timeout = (\<lambda>opts. opts\<lparr>Timeout := timeout\<rparr>)"

text \<open>The loop \<^verbatim>\<open>for _, opt := range opts { opt(o) }\<close>.\<close>

fun apply_opts :: "Option list \<Rightarrow> Options \<Rightarrow> Options" where
  "apply_opts [] options = options"
| "apply_opts (opt # opts) options = apply_opts opts (opt options)"

definition NewOptions :: "string \<Rightarrow> Option list \<Rightarrow> error + Options" where
  "NewOptions packagePath opts =
     (if packagePath = [] then Inl (ErrorString ''package path is required'')
      else Inr (apply_opts opts
        \<lparr>PackagePath = packagePath, Pattern = DefaultPattern, Args = [], Aliases = [],
         EnableVarSock = False, SockPath = DefaultSockPath, Timeout = DefaultTimeout\<rparr>))"

text \<open>
  The configuration calls of the package, as data, so that a statement can speak about the
  calls a caller supplied; \<open>to_Option\<close> maps each to the function of the source.
\<close>

datatype config_call =
    CallWithPattern string
  | CallWithArgs "string list"
  | CallWithAliases "string list"
  | CallWithVarSock
  | CallWithSockPath string
  | CallWithTimeout Duration

fun to_Option :: "config_call \<Rightarrow> Option" where
  "to_Option (CallWithPattern p) = WithPattern p"
| "to_Option (CallWithArgs a) = WithArgs a"
| "to_Option (CallWithAliases a) = WithAliases a"
| "to_Option CallWithVarSock = WithVarSock"
| "to_Option (CallWithSockPath p) = WithSockPath p"
| "to_Option (CallWithTimeout t) = WithTimeout t"

section \<open>Paths\<close>

text \<open>
  \<^verbatim>\<open>path.Clean\<close> (and \<^verbatim>\<open>filepath.Clean\<close> on Unix): empty and \<^verbatim>\<open>.\<close> elements go, an inner
  \<^verbatim>\<open>..\<close> removes the element before it, a \<^verbatim>\<open>..\<close> at the root goes, and the empty result
  is \<^verbatim>\<open>.\<close>.
\<close>

fun split_slash :: "string \<Rightarrow> string list" where
  "split_slash [] = [[]]"
| "split_slash (c # cs) =
     (if c = CHR ''/'' then [] # split_slash cs
      else (case split_slash cs of [] \<Rightarrow> [[c]] | x # xs \<Rightarrow> (c # x) # xs))"

fun join_slash :: "string list \<Rightarrow> string" where
  "join_slash [] = []"
| "join_slash [x] = x"
| "join_slash (x # y # ys) = x @ ''/'' @ join_slash (y # ys)"

text \<open>The second argument is the stack of kept elements, the last one first.\<close>

fun clean_elems :: "bool \<Rightarrow> string list \<Rightarrow> string list \<Rightarrow> string list" where
  "clean_elems rooted stack [] = rev stack"
| "clean_elems rooted stack (e # es) =
     (if e = [] \<or> e = ''.'' then clean_elems rooted stack es
      else if e = ''..'' then
        (case stack of
           [] \<Rightarrow> if rooted then clean_elems rooted [] es else clean_elems rooted [''..''] es
         | t # ts \<Rightarrow>
             if t = ''..'' then clean_elems rooted (''..'' # t # ts) es
             else clean_elems rooted ts es)
      else clean_elems rooted (e # stack) es)"

definition IsAbs :: "string \<Rightarrow> bool" where
  "IsAbs path = (case path of [] \<Rightarrow> False | c # cs \<Rightarrow> c = CHR ''/'')"

definition Clean :: "string \<Rightarrow> string" where
  "Clean path =
     (let out = (if IsAbs path then ''/'' else []) @
                join_slash (clean_elems (IsAbs path) [] (split_slash path))
      in if out = [] then ''.'' else out)"

text \<open>\<^verbatim>\<open>filepath.Join(a, b)\<close> and \<^verbatim>\<open>path.Join(a, b)\<close>, which agree on Unix.\<close>

definition Join :: "string \<Rightarrow> string \<Rightarrow> string" where
  "Join a b =
     (if a \<noteq> [] then Clean (a @ ''/'' @ b)
      else if b \<noteq> [] then Clean b
      else [])"

text \<open>\<^verbatim>\<open>filepath.Base\<close>: trailing slashes go, then everything up to the last slash.\<close>

definition Base :: "string \<Rightarrow> string" where
  "Base path =
     (if path = [] then ''.''
      else
        let stripped = rev (dropWhile (\<lambda>c. c = CHR ''/'') (rev path));
            last_elem = rev (takeWhile (\<lambda>c. c \<noteq> CHR ''/'') (rev stripped))
        in if last_elem = [] then ''/'' else last_elem)"

section \<open>The file system seen by the archiver\<close>

text \<open>
  The directory tree is a snapshot: every node carries what the calls the archiver makes
  on it answer. A regular file has its permission bits, the size \<^verbatim>\<open>Info()\<close> reports and
  the outcome of \<^verbatim>\<open>os.Open\<close> on its path; a directory the outcome of \<^verbatim>\<open>ReadDir\<close>, the
  entries in the order \<^verbatim>\<open>ReadDir\<close> returns them (sorted by name); a symbolic link the
  outcome of \<^verbatim>\<open>os.Readlink\<close>; a special file is a pipe, a socket, a device or a file of
  irregular mode; \<open>NoInfo\<close> is an entry whose \<^verbatim>\<open>Info()\<close> fails.
\<close>

datatype filetype =
  ModeRegular | ModeDir | ModeSymlink | ModeNamedPipe | ModeSocket | ModeCharDevice
  | ModeDevice | ModeIrregular

record FileInfo =
  fi_Mode :: filetype
  fi_Perm :: nat
  fi_Size :: nat

text \<open>An opened file: the bytes a reader gets, then end of file or a read error.\<close>

record File =
  f_data :: bytes
  f_readErr :: "error option"
  f_closeErr :: "error option"

datatype special = NamedPipe | Socket | CharDevice | BlockDevice | Irregular

fun special_mode :: "special \<Rightarrow> filetype" where
  "special_mode NamedPipe = ModeNamedPipe"
| "special_mode Socket = ModeSocket"
| "special_mode CharDevice = ModeCharDevice"
| "special_mode BlockDevice = ModeDevice"
| "special_mode Irregular = ModeIrregular"

datatype fnode =
    RegularFile nat nat "error + File"
  | Directory nat "error + (string \<times> fnode) list"
  | Symlink nat "error + string"
  | Special special nat
  | NoInfo error

fun Info :: "fnode \<Rightarrow> error + FileInfo" where
  "Info (RegularFile perm sz f) = Inr \<lparr>fi_Mode = ModeRegular, fi_Perm = perm, fi_Size = sz\<rparr>"
| "Info (Directory perm entries) = Inr \<lparr>fi_Mode = ModeDir, fi_Perm = perm, fi_Size = 0\<rparr>"
| "Info (Symlink perm target) = Inr \<lparr>fi_Mode = ModeSymlink, fi_Perm = perm, fi_Size = 0\<rparr>"
| "Info (Special t perm) = Inr \<lparr>fi_Mode = special_mode t, fi_Perm = perm, fi_Size = 0\<rparr>"
| "Info (NoInfo e) = Inl e"

fun IsDir :: "fnode \<Rightarrow> bool" where
  "IsDir (Directory perm entries) = True"
| "IsDir d = False"

fun Readlink :: "fnode \<Rightarrow> error + string" where
  "Readlink (Symlink perm target) = target"
| "Readlink d = Inl (ErrorString ''readlink: invalid argument'')"

fun Open :: "fnode \<Rightarrow> error + File" where
  "Open (RegularFile perm sz f) = f"
| "Open d = Inl (ErrorString ''open: not a regular file'')"

text \<open>
  What the package reads from the operating system: \<^verbatim>\<open>os.ReadFile\<close>, the tree under a
  path as \<^verbatim>\<open>os.DirFS\<close> shows it (\<open>Inl\<close> when the root cannot be stat'ed), \<^verbatim>\<open>os.Stat\<close>
  and the working directory.
\<close>

record filesystem =
  ReadFile :: "string \<Rightarrow> error + bytes"
  DirFS :: "string \<Rightarrow> error + fnode"
  Stat :: "string \<Rightarrow> error option"
  Getwd :: "error + string"

section \<open>The tar writer\<close>

datatype typeflag = TypeReg | TypeDir | TypeSymlink | TypeChar | TypeBlock | TypeFifo

record Header =
  Typeflag :: typeflag
  Name :: string
  Linkname :: string
  Size :: nat
  Mode :: nat

text \<open>
  \<^verbatim>\<open>tar.FileInfoHeader(info, "")\<close>; the first argument is \<^verbatim>\<open>info.Name()\<close>. The modification
  time and the owner are not part of the model.
\<close>

definition FileInfoHeader :: "string \<Rightarrow> FileInfo \<Rightarrow> error + Header" where
  "FileInfoHeader name info =
     (let h = \<lparr>Typeflag = TypeReg, Name = name, Linkname = [], Size = 0, Mode = fi_Perm info\<rparr>
      in case fi_Mode info of
           ModeRegular \<Rightarrow> Inr (h\<lparr>Typeflag := TypeReg, Size := fi_Size info\<rparr>)
         | ModeDir \<Rightarrow> Inr (h\<lparr>Typeflag := TypeDir, Name := name @ ''/''\<rparr>)
         | ModeSymlink \<Rightarrow> Inr (h\<lparr>Typeflag := TypeSymlink, Linkname := []\<rparr>)
         | ModeCharDevice \<Rightarrow> Inr (h\<lparr>Typeflag := TypeChar\<rparr>)
         | ModeDevice \<Rightarrow> Inr (h\<lparr>Typeflag := TypeBlock\<rparr>)
         | ModeNamedPipe \<Rightarrow> Inr (h\<lparr>Typeflag := TypeFifo\<rparr>)
         | ModeSocket \<Rightarrow> Inl (ErrorString ''archive/tar: sockets not supported'')
         | ModeIrregular \<Rightarrow> Inl (ErrorString ''archive/tar: unknown file mode''))"

function itoa :: "nat \<Rightarrow> string" where
  "itoa n = (if n < 10 then [char_of (48 + n)] else itoa (n div 10) @ [char_of (48 + n mod 10)])"
  by pat_completeness auto
termination
  by (relation "measure id") auto

text \<open>
  A \<^verbatim>\<open>tar.Writer\<close>: the entries written so far, the last one being the current one, and
  the number of bytes the current entry still expects.
\<close>

record Writer =
  entries :: "(Header \<times> bytes) list"
  nb :: nat

definition NewWriter :: Writer where
  "NewWriter = \<lparr>entries = [], nb = 0\<rparr>"

definition missed_writing :: "nat \<Rightarrow> error" where
  "missed_writing n = ErrorString (''archive/tar: missed writing '' @ itoa n @ '' bytes'')"

definition ErrWriteTooLong :: error where
  "ErrWriteTooLong = ErrorString ''archive/tar: write too long''"

definition WriteHeader :: "Writer \<Rightarrow> Header \<Rightarrow> error option \<times> Writer" where
  "WriteHeader tw hdr =
     (if nb tw > 0 then (Some (missed_writing (nb tw)), tw)
      else (None, \<lparr>entries = entries tw @ [(hdr, [])],
                   nb = (if Typeflag hdr = TypeReg then Size hdr else 0)\<rparr>))"

text \<open>Appends to the content of the current entry.\<close>

definition append_current :: "bytes \<Rightarrow> (Header \<times> bytes) list \<Rightarrow> (Header \<times> bytes) list" where
  "append_current b es =
     (if es = [] then [] else butlast es @ [(fst (last es), snd (last es) @ b)])"

definition Write :: "Writer \<Rightarrow> bytes \<Rightarrow> error option \<times> Writer" where
  "Write tw b =
     (if length b > nb tw
      then (Some ErrWriteTooLong, \<lparr>entries = append_current (take (nb tw) b) (entries tw), nb = 0\<rparr>)
      else (None, \<lparr>entries = append_current b (entries tw), nb = nb tw - length b\<rparr>))"

definition Close :: "Writer \<Rightarrow> error option" where
  "Close tw = (if nb tw > 0 then Some (missed_writing (nb tw)) else None)"

text \<open>
  \<^verbatim>\<open>io.Copy(tw, file)\<close>: the bytes of the file go to the writer; a write error comes
  first, then the read error of the file.
\<close>

definition io_Copy :: "Writer \<Rightarrow> File \<Rightarrow> error option \<times> Writer" where
  "io_Copy tw file =
     (case Write tw (f_data file) of
        (Some e, tw') \<Rightarrow> (Some e, tw')
      | (None, tw') \<Rightarrow> (f_readErr file, tw'))"

section \<open>The context archiver\<close>

fun join_lines :: "string list \<Rightarrow> string" where
  "join_lines [] = []"
| "join_lines [l] = l"
| "join_lines (l # m # ls) = l @ [CHR 0x0A] @ join_lines (m # ls)"

text \<open>The embedded file template.Dockerfile.\<close>

definition dockerfileTemplate :: string where
  "dockerfileTemplate = join_lines [
       ''# Dockerfile for running Go tests inside a container'',
       ''ARG GO_VERSION=1.25.6'',
       [],
       ''FROM golang:${GO_VERSION}'',
       [],
       ''WORKDIR /app'',
       [],
       ''# Copy the entire package (build context)'',
       ''COPY . .'',
       [],
       ''# Download dependencies'',
       ''RUN go mod download'',
       [],
       ''# Keep container alive for exec commands'',
       ''ENTRYPOINT ['' @ [CHR 0x22] @ ''/bin/sh'' @ [CHR 0x22] @ '', '' @ [CHR 0x22] @ ''-c'' @ [CHR 0x22] @ '', '' @ [CHR 0x22] @ ''trap '' @ [CHR 0x27] @ ''exit 0'' @ [CHR 0x27] @ '' TERM; while :; do sleep 0.1; done'' @ [CHR 0x22] @ '']'']"

text \<open>
  \<^verbatim>\<open>fs.WalkDir\<close> of the standard library: the function is called on the node, then on
  each entry of a directory in order; a failing \<^verbatim>\<open>ReadDir\<close> is reported to the function
  in a second call. The function of this package never returns \<^verbatim>\<open>SkipDir\<close> or
  \<^verbatim>\<open>SkipAll\<close>, so every error stops the walk.
\<close>

type_synonym WalkDirFunc = "string \<Rightarrow> fnode \<Rightarrow> error option \<Rightarrow> Writer \<Rightarrow> error option \<times> Writer"

fun walkDir :: "WalkDirFunc \<Rightarrow> string \<Rightarrow> fnode \<Rightarrow> Writer \<Rightarrow> error option \<times> Writer"
  and walkDirs :: "WalkDirFunc \<Rightarrow> string \<Rightarrow> (string \<times> fnode) list \<Rightarrow> Writer \<Rightarrow> error option \<times> Writer"
where
  "walkDir fn name (Directory perm (Inr dirs)) tw =
     (case fn name (Directory perm (Inr dirs)) None tw of
        (Some e, tw') \<Rightarrow> (Some e, tw')
      | (None, tw') \<Rightarrow> walkDirs fn name dirs tw')"
| "walkDir fn name (Directory perm (Inl err)) tw =
     (case fn name (Directory perm (Inl err)) None tw of
        (Some e, tw') \<Rightarrow> (Some e, tw')
      | (None, tw') \<Rightarrow> fn name (Directory perm (Inl err)) (Some err) tw')"
| "walkDir fn name (RegularFile perm sz f) tw = fn name (RegularFile perm sz f) None tw"
| "walkDir fn name (Symlink perm target) tw = fn name (Symlink perm target) None tw"
| "walkDir fn name (Special t perm) tw = fn name (Special t perm) None tw"
| "walkDir fn name (NoInfo e) tw = fn name (NoInfo e) None tw"
| "walkDirs fn name [] tw = (None, tw)"
| "walkDirs fn name ((n1, d1) # rest) tw =
     (case walkDir fn (Join name n1) d1 tw of
        (Some e, tw') \<Rightarrow> (Some e, tw')
      | (None, tw') \<Rightarrow> walkDirs fn name rest tw')"

definition WalkDir :: "error + fnode \<Rightarrow> string \<Rightarrow> WalkDirFunc \<Rightarrow> Writer \<Rightarrow> error option \<times> Writer" where
  "WalkDir fsys root fn tw =
     (case fsys of
        Inl err \<Rightarrow> fn root (NoInfo err) (Some err) tw
      | Inr d \<Rightarrow> walkDir fn root d tw)"

text \<open>The function literal that CreateTarContext passes to \<^verbatim>\<open>fs.WalkDir\<close>.\<close>

definition walkFn :: WalkDirFunc where
  "walkFn path d err tw =
     (case err of
        Some e \<Rightarrow> (Some e, tw)
      | None \<Rightarrow>
        (if path = ''.'' then (None, tw)
         else if Base path = ''Dockerfile'' then (None, tw)
         else
          (case Info d of
             Inl e \<Rightarrow> (Some (WrapError (''failed to get file info for '' @ path) e), tw)
           | Inr info \<Rightarrow>
          (case FileInfoHeader (Base path) info of
             Inl e \<Rightarrow> (Some (WrapError (''failed to create tar header for '' @ path) e), tw)
           | Inr h \<Rightarrow>
          (case (if fi_Mode info = ModeSymlink
                 then (case Readlink d of
                         Inl e \<Rightarrow> Inl (WrapError (''failed to read symlink '' @ path) e)
                       | Inr linkTarget \<Rightarrow> Inr (h\<lparr>Name := path, Linkname := linkTarget\<rparr>))
                 else Inr (h\<lparr>Name := path\<rparr>)) of
             Inl e \<Rightarrow> (Some e, tw)
           | Inr header \<Rightarrow>
          (case WriteHeader tw header of
             (Some e, tw1) \<Rightarrow>
               (Some (WrapError (''failed to write tar header for '' @ path) e), tw1)
           | (None, tw1) \<Rightarrow>
             (if fi_Mode info = ModeRegular then
                (case Open d of
                   Inl e \<Rightarrow> (Some (WrapError (''failed to open file '' @ path) e), tw1)
                 | Inr file \<Rightarrow>
                   (case io_Copy tw1 file of (copyErr, tw2) \<Rightarrow>
                      (case copyErr of
                         Some e \<Rightarrow>
                           (Some (WrapError (''failed to write file content for '' @ path) e), tw2)
                       | None \<Rightarrow>
                           (case f_closeErr file of
                              Some e \<Rightarrow>
                                (Some (WrapError (''failed to close file '' @ path) e), tw2)
                            | None \<Rightarrow> (None, tw2)))))
              else (None, tw1))))))))"

text \<open>
  \<^verbatim>\<open>CreateTarContext(contextPath, dockerfilePath)\<close>. The result is the archive as the
  sequence of its entries, header and content, in the order they were written. The
  mode of the recipe entry is octal 644.
\<close>

definition CreateTarContext ::
  "filesystem \<Rightarrow> string \<Rightarrow> string \<Rightarrow> error + (Header \<times> bytes) list" where
  "CreateTarContext fs contextPath dockerfilePath =
     (case (if dockerfilePath = [] then Inr dockerfileTemplate
            else
              (let fullPath = (if IsAbs dockerfilePath then dockerfilePath
                               else Join contextPath dockerfilePath)
               in (case ReadFile fs fullPath of
                     Inl e \<Rightarrow>
                       Inl (WrapError (''failed to read custom Dockerfile at '' @ fullPath) e)
                   | Inr content \<Rightarrow> Inr content))) of
        Inl e \<Rightarrow> Inl e
      | Inr dockerfileContent \<Rightarrow>
        (case WalkDir (DirFS fs contextPath) ''.'' walkFn NewWriter of
           (Some e, tw) \<Rightarrow> Inl (WrapError ''failed to walk context directory'' e)
         | (None, tw) \<Rightarrow>
           (let dockerfileHeader =
                  \<lparr>Typeflag = TypeReg, Name = ''Dockerfile'', Linkname = [],
                   Size = length dockerfileContent, Mode = 6 * 64 + 4 * 8 + 4\<rparr>
            in (case WriteHeader tw dockerfileHeader of
                  (Some e, tw1) \<Rightarrow> Inl (WrapError ''failed to write Dockerfile header'' e)
                | (None, tw1) \<Rightarrow>
                  (case Write tw1 dockerfileContent of
                     (Some e, tw2) \<Rightarrow> Inl (WrapError ''failed to write Dockerfile content'' e)
                   | (None, tw2) \<Rightarrow>
                     (case Close tw2 of
                        Some e \<Rightarrow> Inl (WrapError ''failed to close tar writer'' e)
                      | None \<Rightarrow> Inr (entries tw2)))))))"

section \<open>Contexts, the container engine and program runs\<close>

text \<open>
  A \<^verbatim>\<open>context.Context\<close>: the background context, or the context that
  \<^verbatim>\<open>context.WithTimeout(parent, d)\<close> derives. What \<^verbatim>\<open>ctx.Err()\<close> answers depends on the
  time, which belongs to the world below.
\<close>

datatype "context" = Background | WithTimeoutCtx "context" Duration

text \<open>
  The handles of testcontainers-go: a network with its generated name, a container, and
  an \<^verbatim>\<open>io.Reader\<close> handed out by the engine.
\<close>

record tc_network =
  net_ID :: nat
  net_Name :: string

type_synonym tc_container = nat

type_synonym Reader = nat

record Mount =
  mnt_Type :: string
  mnt_Source :: string
  mnt_Target :: string

record GenericContainerRequest =
  ContextArchive :: "(Header \<times> bytes) list"
  Dockerfile :: string
  WaitingFor :: "string list"
  Env :: "(string \<times> string) list"
  Networks :: "string list"
  NetworkAliases :: "(string \<times> string list) list"
  Mounts :: "Mount list"
  Started :: bool

text \<open>A call either returns or panics.\<close>

datatype 'a outcome = Returned 'a | Panicked string

text \<open>
  The world outside the package, of any type \<open>'s\<close>, and the calls the package makes on
  it. Each call gets the world and answers with its outcome and the world after it.
  \<open>WithNetwork\<close> and \<open>WithHostConfigModifier\<close> are the request customizers of
  testcontainers-go and \<open>Duration_String\<close> is the formatting of a duration by \<^verbatim>\<open>%v\<close>.
\<close>

record 's engine =
  ctx_Err :: "context \<Rightarrow> 's \<Rightarrow> error option"
  os_fs :: "'s \<Rightarrow> filesystem"
  network_New :: "context \<Rightarrow> 's \<Rightarrow> (error + tc_network) outcome \<times> 's"
  network_Remove :: "tc_network \<Rightarrow> context \<Rightarrow> 's \<Rightarrow> error option outcome \<times> 's"
  WithNetwork ::
    "string list \<Rightarrow> tc_network \<Rightarrow> GenericContainerRequest \<Rightarrow> error + GenericContainerRequest"
  WithHostConfigModifier ::
    "Mount \<Rightarrow> GenericContainerRequest \<Rightarrow> error + GenericContainerRequest"
  GenericContainer ::
    "context \<Rightarrow> GenericContainerRequest \<Rightarrow> 's \<Rightarrow> (error + tc_container) outcome \<times> 's"
  ctr_Exec ::
    "tc_container \<Rightarrow> context \<Rightarrow> string list \<Rightarrow> 's
      \<Rightarrow> (error + int \<times> Reader option) outcome \<times> 's"
  ctr_CopyFileFromContainer ::
    "tc_container \<Rightarrow> context \<Rightarrow> string \<Rightarrow> 's \<Rightarrow> (error + Reader) outcome \<times> 's"
  ctr_Terminate :: "tc_container \<Rightarrow> context \<Rightarrow> 's \<Rightarrow> error option outcome \<times> 's"
  io_ReadAll :: "Reader \<Rightarrow> 's \<Rightarrow> (bytes \<times> error option) outcome \<times> 's"
  io_Close :: "Reader \<Rightarrow> 's \<Rightarrow> error option outcome \<times> 's"
  Duration_String :: "Duration \<Rightarrow> string"

text \<open>
  Every call on the engine is recorded, with the context it was given; a created network
  or container is recorded when the call that creates it returns it.
\<close>

datatype event =
    EvNetworkNew "context"
  | EvNetworkCreated tc_network
  | EvNetworkRemove tc_network "context"
  | EvGenericContainer "context" GenericContainerRequest
  | EvContainerCreated tc_container
  | EvExec tc_container "context" "string list"
  | EvStdout bytes
  | EvCopyFile tc_container "context" string
  | EvTerminate tc_container "context"
  | EvReadAll Reader
  | EvClose Reader
  | EvCancel "context"

record 's state =
  trace :: "event list"
  world :: 's

type_synonym ('s, 'a) prog = "'s state \<Rightarrow> 'a outcome \<times> 's state"

definition return :: "'a \<Rightarrow> ('s, 'a) prog" where
  "return a = (\<lambda>s. (Returned a, s))"

definition panic :: "string \<Rightarrow> ('s, 'a) prog" where
  "panic msg = (\<lambda>s. (Panicked msg, s))"

text \<open>Sequencing: a panic of the first part skips the rest.\<close>

definition bindP :: "('s, 'a) prog \<Rightarrow> ('a \<Rightarrow> ('s, 'b) prog) \<Rightarrow> ('s, 'b) prog" where
  "bindP m f = (\<lambda>s. case m s of
                      (Returned a, s') \<Rightarrow> f a s'
                    | (Panicked msg, s') \<Rightarrow> (Panicked msg, s'))"

definition emit :: "event \<Rightarrow> ('s, unit) prog" where
  "emit ev = (\<lambda>s. (Returned (), s\<lparr>trace := trace s @ [ev]\<rparr>))"

text \<open>A call on the engine: recorded, then run on the world.\<close>

definition call :: "event \<Rightarrow> ('s \<Rightarrow> 'a outcome \<times> 's) \<Rightarrow> ('s, 'a) prog" where
  "call ev f = (\<lambda>s. case f (world s) of
                       (r, w') \<Rightarrow> (r, \<lparr>trace = trace s @ [ev], world = w'\<rparr>))"

text \<open>
  \<^verbatim>\<open>defer f()\<close> followed by the rest of the function body: the rest runs, and when it
  returns or panics the deferred call runs. None of the functions below has named results
  or recovers, so a deferred call that returns leaves the outcome of the rest as it is, and
  one that panics replaces it. Deferred calls registered later are nested inside, so they
  run first.
\<close>

definition deferring :: "('s, unit) prog \<Rightarrow> ('s, 'a) prog \<Rightarrow> ('s, 'a) prog" where
  "deferring f rest = (\<lambda>s. case rest s of
                        (r, s') \<Rightarrow>
                          (case f s' of
                             (Returned u, s'') \<Rightarrow> (r, s'')
                           | (Panicked msg, s'') \<Rightarrow> (Panicked msg, s'')))"

text \<open>\<^verbatim>\<open>_ = f()\<close>: the result is dropped.\<close>

definition discard :: "('s, 'a) prog \<Rightarrow> ('s, unit) prog" where
  "discard m = bindP m (\<lambda>a. return ())"

text \<open>The deferred \<^verbatim>\<open>cancel()\<close> of a derived context.\<close>

definition cancel :: "context \<Rightarrow> ('s, unit) prog" where
  "cancel ctx = emit (EvCancel ctx)"

text \<open>Reading the world: \<^verbatim>\<open>ctx.Err()\<close> now, and the file system as it is now.\<close>

definition Err_now :: "'s engine \<Rightarrow> context \<Rightarrow> ('s, error option) prog" where
  "Err_now E ctx = (\<lambda>s. (Returned (ctx_Err E ctx (world s)), s))"

definition fs_now :: "'s engine \<Rightarrow> ('s, filesystem) prog" where
  "fs_now E = (\<lambda>s. (Returned (os_fs E (world s)), s))"

text \<open>\<^verbatim>\<open>return nil, wrapTimeoutError(ctx, err, operation)\<close>.\<close>

definition return_wrapTimeoutError ::
  "'s engine \<Rightarrow> context \<Rightarrow> error option \<Rightarrow> string \<Rightarrow> ('s, 'a option \<times> error option) prog" where
  "return_wrapTimeoutError E ctx err operation =
     bindP (Err_now E ctx) (\<lambda>ctx_err. return (None, wrapTimeoutError ctx_err err operation))"

section \<open>Network session\<close>

record DockerNetwork =
  dn_Name :: string
  dn_network :: "tc_network option"

text \<open>The cleanup closure that CreateNetwork returns, closed over the network.\<close>

definition network_cleanup :: "'s engine \<Rightarrow> tc_network \<Rightarrow> context \<Rightarrow> ('s, error option) prog" where
  "network_cleanup E net ctx =
     bindP (call (EvNetworkRemove net ctx) (network_Remove E net ctx)) (\<lambda>err.
       case err of
         Some e \<Rightarrow> return (Some (WrapError ''failed to remove docker network'' e))
       | None \<Rightarrow> return None)"

definition CreateNetwork ::
  "'s engine \<Rightarrow> context \<Rightarrow>
   ('s, DockerNetwork option \<times> (context \<Rightarrow> ('s, error option) prog) option \<times> error option) prog"
where
  "CreateNetwork E ctx =
     bindP (call (EvNetworkNew ctx) (network_New E ctx)) (\<lambda>r.
       case r of
         Inl err \<Rightarrow> return (None, None, Some (WrapError ''failed to create docker network'' err))
       | Inr net \<Rightarrow>
           bindP (emit (EvNetworkCreated net)) (\<lambda>u.
             return (Some \<lparr>dn_Name = net_Name net, dn_network = Some net\<rparr>,
                     Some (network_cleanup E net), None)))"

definition Remove :: "'s engine \<Rightarrow> DockerNetwork \<Rightarrow> context \<Rightarrow> ('s, error option) prog" where
  "Remove E n ctx =
     (case dn_network n of
        None \<Rightarrow> return None
      | Some net \<Rightarrow>
          bindP (call (EvNetworkRemove net ctx) (network_Remove E net ctx)) (\<lambda>err.
            case err of
              Some e \<Rightarrow> return (Some (WrapError ''failed to remove docker network'' e))
            | None \<Rightarrow> return None))"

section \<open>Container session\<close>

record TestContainer =
  ctr :: "tc_container option"

record CreateContainerConfig =
  cfg_PackagePath :: string
  cfg_Network :: "DockerNetwork option"
  cfg_Aliases :: "string list"
  cfg_EnableVarSock :: bool
  cfg_SockPath :: string
  cfg_NetworkName :: string
  cfg_DockerfilePath :: string

text \<open>\<^verbatim>\<open>filepath.Abs\<close> and \<^verbatim>\<open>os.IsNotExist\<close>; a \<^verbatim>\<open>PathError\<close> is a \<open>WrapError\<close>.\<close>

definition Abs :: "filesystem \<Rightarrow> string \<Rightarrow> string \<times> error option" where
  "Abs fs path =
     (if IsAbs path then (Clean path, None)
      else (case Getwd fs of
              Inl e \<Rightarrow> ([], Some e)
            | Inr wd \<Rightarrow> (Join wd path, None)))"

fun IsNotExist :: "error option \<Rightarrow> bool" where
  "IsNotExist (Some ErrNotExist) = True"
| "IsNotExist (Some (WrapError p ErrNotExist)) = True"
| "IsNotExist err = False"

text \<open>The request CreateContainer builds before the customizers run.\<close>

definition build_request ::
  "CreateContainerConfig \<Rightarrow> (Header \<times> bytes) list \<Rightarrow> GenericContainerRequest" where
  "build_request cfg contextArchive =
     \<lparr>ContextArchive = contextArchive,
      Dockerfile = ''Dockerfile'',
      WaitingFor = [''echo'', ''ready''],
      Env = (if cfg_NetworkName cfg \<noteq> []
             then [(''TESTCONTAINERS_DOCKER_NETWORK'', cfg_NetworkName cfg)] else []),
      Networks = (case cfg_Network cfg of None \<Rightarrow> [] | Some n \<Rightarrow> [dn_Name n]),
      NetworkAliases =
        (case cfg_Network cfg of
           None \<Rightarrow> []
         | Some n \<Rightarrow> if length (cfg_Aliases cfg) > 0 then [(dn_Name n, cfg_Aliases cfg)] else []),
      Mounts = [],
      Started = True\<rparr>"

definition apply_network_option ::
  "'s engine \<Rightarrow> CreateContainerConfig \<Rightarrow> GenericContainerRequest
    \<Rightarrow> error + GenericContainerRequest" where
  "apply_network_option E cfg genReq =
     (case cfg_Network cfg of
        None \<Rightarrow> Inr genReq
      | Some n \<Rightarrow>
          (case dn_network n of
             None \<Rightarrow> Inr genReq
           | Some net \<Rightarrow>
               (case WithNetwork E (cfg_Aliases cfg) net genReq of
                  Inl e \<Rightarrow> Inl (WrapError ''failed to apply network option'' e)
                | Inr genReq' \<Rightarrow> Inr genReq')))"

definition apply_host_config_option ::
  "'s engine \<Rightarrow> CreateContainerConfig \<Rightarrow> GenericContainerRequest
    \<Rightarrow> error + GenericContainerRequest" where
  "apply_host_config_option E cfg genReq =
     (if cfg_EnableVarSock cfg then
        (let sockPath = (if cfg_SockPath cfg = [] then DefaultSockPath else cfg_SockPath cfg)
         in (case WithHostConfigModifier E
                    \<lparr>mnt_Type = ''bind'', mnt_Source = sockPath,
                     mnt_Target = ''/var/run/docker.sock''\<rparr> genReq of
               Inl e \<Rightarrow> Inl (WrapError ''failed to apply host config option'' e)
             | Inr genReq' \<Rightarrow> Inr genReq'))
      else Inr genReq)"

definition CreateContainer ::
  "'s engine \<Rightarrow> context \<Rightarrow> CreateContainerConfig
    \<Rightarrow> ('s, TestContainer option \<times> error option) prog" where
  "CreateContainer E ctx cfg =
     bindP (fs_now E) (\<lambda>fs.
       case Abs fs (cfg_PackagePath cfg) of
         (absPath, Some e) \<Rightarrow>
           return (None, Some (WrapError ''failed to get absolute path for package'' e))
       | (absPath, None) \<Rightarrow>
           (if IsNotExist (Stat fs absPath)
            then return (None, Some (ErrorString (''package path does not exist: '' @ absPath)))
            else
             (case CreateTarContext fs absPath (cfg_DockerfilePath cfg) of
                Inl e \<Rightarrow> return (None, Some (WrapError ''failed to create tar context'' e))
              | Inr contextArchive \<Rightarrow>
                (case apply_network_option E cfg (build_request cfg contextArchive) of
                   Inl e \<Rightarrow> return (None, Some e)
                 | Inr genReq1 \<Rightarrow>
                   (case apply_host_config_option E cfg genReq1 of
                      Inl e \<Rightarrow> return (None, Some e)
                    | Inr genReq \<Rightarrow>
                        bindP (call (EvGenericContainer ctx genReq) (GenericContainer E ctx genReq))
                          (\<lambda>r. case r of
                                 Inl err \<Rightarrow>
                                   return (None, Some (WrapError ''failed to create container'' err))
                               | Inr c \<Rightarrow>
                                   bindP (emit (EvContainerCreated c)) (\<lambda>u.
                                     return (Some \<lparr>ctr = Some c\<rparr>, None))))))))"

definition Terminate :: "'s engine \<Rightarrow> TestContainer \<Rightarrow> context \<Rightarrow> ('s, error option) prog" where
  "Terminate E c ctx =
     (case ctr c of
        None \<Rightarrow> return None
      | Some h \<Rightarrow>
          bindP (call (EvTerminate h ctx) (ctr_Terminate E h ctx)) (\<lambda>err.
            case err of
              Some e \<Rightarrow> return (Some (WrapError ''failed to terminate container'' e))
            | None \<Rightarrow> return None))"

section \<open>Copying a file out of the container\<close>

definition CopyFileFromContainer ::
  "'s engine \<Rightarrow> TestContainer \<Rightarrow> context \<Rightarrow> string \<Rightarrow> ('s, bytes option \<times> error option) prog" where
  "CopyFileFromContainer E c ctx containerFilePath =
     (case ctr c of
        None \<Rightarrow> return (None, Some (ErrorString ''container is nil''))
      | Some h \<Rightarrow>
          bindP (call (EvCopyFile h ctx containerFilePath)
                   (ctr_CopyFileFromContainer E h ctx containerFilePath)) (\<lambda>r.
            case r of
              Inl err \<Rightarrow> return (None, None)
            | Inr reader \<Rightarrow>
                deferring (discard (call (EvClose reader) (io_Close E reader)))
                  (bindP (call (EvReadAll reader) (io_ReadAll E reader)) (\<lambda>(content, err).
                     case err of
                       Some e \<Rightarrow> return (None, Some (WrapError ''failed to read file content'' e))
                     | None \<Rightarrow> return (Some content, None)))))"

definition CopyCoverage ::
  "'s engine \<Rightarrow> TestContainer \<Rightarrow> context \<Rightarrow> ('s, bytes option \<times> error option) prog" where
  "CopyCoverage E c ctx = CopyFileFromContainer E c ctx DefaultCoverageFile"

definition CopyCoverageFromPath ::
  "'s engine \<Rightarrow> TestContainer \<Rightarrow> context \<Rightarrow> string \<Rightarrow> ('s, bytes option \<times> error option) prog" where
  "CopyCoverageFromPath E c ctx coveragePath =
     CopyFileFromContainer E c ctx
       (if coveragePath = [] then DefaultCoverageFile else coveragePath)"

section \<open>Executing the tests\<close>

record ExecConfig =
  ec_Pattern :: string
  ec_Args :: "string list"
  ec_CoverageFile :: string
  ec_Timeout :: Duration

record ExecResult =
  er_Stdout :: "bytes option"
  er_ExitCode :: int

definition ExecTest ::
  "'s engine \<Rightarrow> TestContainer \<Rightarrow> context \<Rightarrow> ExecConfig
    \<Rightarrow> ('s, ExecResult option \<times> error option) prog" where
  "ExecTest E c ctx cfg0 =
     (case ctr c of
        None \<Rightarrow> return (None, Some (ErrorString ''container is nil''))
      | Some h \<Rightarrow>
          (let cfg = cfg0\<lparr>ec_Pattern := (if ec_Pattern cfg0 = [] then DefaultPattern
                                           else ec_Pattern cfg0),
                          ec_CoverageFile := (if ec_CoverageFile cfg0 = [] then ''/tmp/coverage.txt''
                                              else ec_CoverageFile cfg0),
                          ec_Timeout := (if ec_Timeout cfg0 = 0 then DefaultExecTimeout
                                         else ec_Timeout cfg0)\<rparr>;
               cmd = [''go'', ''test'', ''-coverprofile='' @ ec_CoverageFile cfg, ec_Pattern cfg]
                     @ ec_Args cfg;
               execCtx = WithTimeoutCtx ctx (ec_Timeout cfg)
           in deferring (cancel execCtx)
                (bindP (call (EvExec h execCtx cmd) (ctr_Exec E h execCtx cmd)) (\<lambda>r.
                   case r of
                     Inl err \<Rightarrow>
                       bindP (Err_now E execCtx) (\<lambda>ctx_err.
                         if ctx_err = Some DeadlineExceeded
                         then return (None, Some (WrapError
                                (''test execution timed out after ''
                                   @ Duration_String E (ec_Timeout cfg)) err))
                         else return (None, Some (WrapError
                                ''failed to execute test command'' err)))
                   | Inr (exitCode, reader) \<Rightarrow>
                       (case reader of
                          None \<Rightarrow> return (Some \<lparr>er_Stdout = None, er_ExitCode = exitCode\<rparr>, None)
                        | Some rd \<Rightarrow>
                            bindP (call (EvReadAll rd) (io_ReadAll E rd)) (\<lambda>(output, err).
                              case err of
                                Some e \<Rightarrow>
                                  return (None, Some (WrapError ''failed to read test output'' e))
                              | None \<Rightarrow>
                                  return (Some \<lparr>er_Stdout = Some output, er_ExitCode = exitCode\<rparr>,
                                          None)))))))"

text \<open>
  \<^verbatim>\<open>execTestWithStreaming\<close> of run.go. The bytes read through the \<^verbatim>\<open>TeeReader\<close> are
  recorded as written to the standard output.
\<close>

definition execTestWithStreaming ::
  "'s engine \<Rightarrow> context \<Rightarrow> TestContainer \<Rightarrow> Options
    \<Rightarrow> ('s, ExecResult option \<times> error option) prog" where
  "execTestWithStreaming E ctx container options =
     (case ctr container of
        None \<Rightarrow> return (None, Some (ErrorString ''container is nil''))
      | Some h \<Rightarrow>
          (let cmd = [''go'', ''test'', ''-coverprofile='' @ DefaultCoverageFile, Pattern options]
                     @ Args options
           in bindP (call (EvExec h ctx cmd) (ctr_Exec E h ctx cmd)) (\<lambda>r.
                case r of
                  Inl err \<Rightarrow> return_wrapTimeoutError E ctx (Some err) ''execute test command''
                | Inr (exitCode, reader) \<Rightarrow>
                    (case reader of
                       None \<Rightarrow> return (Some \<lparr>er_Stdout = None, er_ExitCode = exitCode\<rparr>, None)
                     | Some rd \<Rightarrow>
                         bindP (call (EvReadAll rd) (io_ReadAll E rd)) (\<lambda>(output, err).
                           bindP (emit (EvStdout output)) (\<lambda>u.
                             case err of
                               Some e \<Rightarrow>
                                 return_wrapTimeoutError E ctx (Some e) ''read test output''
                             | None \<Rightarrow>
                                 return (Some \<lparr>er_Stdout = Some output, er_ExitCode = exitCode\<rparr>,
                                         None)))))))"

section \<open>The orchestrator\<close>

record Result =
  Stdout :: "bytes option"
  Coverage :: "bytes option"
  ExitCode :: int

text \<open>
  The body of \<^verbatim>\<open>Run\<close> from the creation of the network on, under the value the variable
  \<^verbatim>\<open>ctx\<close> has there. The two deferred closures read that same variable.
\<close>

definition Run_steps ::
  "'s engine \<Rightarrow> context \<Rightarrow> Options \<Rightarrow> ('s, Result option \<times> error option) prog" where
  "Run_steps E ctx options =
     bindP (CreateNetwork E ctx) (\<lambda>(network, cleanupNetwork, err).
       case err of
         Some e \<Rightarrow> return_wrapTimeoutError E ctx (Some e) ''create network''
       | None \<Rightarrow>
           deferring
             (case cleanupNetwork of
                None \<Rightarrow> return ()
              | Some cleanup \<Rightarrow> discard (cleanup ctx))
             (case network of
                None \<Rightarrow> panic ''nil pointer dereference''
              | Some n \<Rightarrow>
                  bindP (CreateContainer E ctx
                           \<lparr>cfg_PackagePath = PackagePath options,
                            cfg_Network = network,
                            cfg_Aliases = Aliases options,
                            cfg_EnableVarSock = EnableVarSock options,
                            cfg_SockPath = SockPath options,
                            cfg_NetworkName = dn_Name n,
                            cfg_DockerfilePath = []\<rparr>) (\<lambda>(container, err).
                    case err of
                      Some e \<Rightarrow> return_wrapTimeoutError E ctx (Some e) ''create container''
                    | None \<Rightarrow>
                        deferring
                          (case container of
                             None \<Rightarrow> return ()
                           | Some c \<Rightarrow> discard (Terminate E c ctx))
                          (case container of
                             None \<Rightarrow> panic ''nil pointer dereference''
                           | Some c \<Rightarrow>
                               bindP (execTestWithStreaming E ctx c options) (\<lambda>(result, err).
                                 case err of
                                   Some e \<Rightarrow>
                                     return_wrapTimeoutError E ctx (Some e) ''execute tests''
                                 | None \<Rightarrow>
                                     bindP (CopyCoverage E c ctx) (\<lambda>(coverage, err).
                                       case result of
                                         None \<Rightarrow> panic ''nil pointer dereference''
                                       | Some res \<Rightarrow>
                                           return
                                             (Some \<lparr>Stdout = er_Stdout res,
                                                    Coverage = (if err \<noteq> None then None
                                                                else coverage),
                                                    ExitCode = er_ExitCode res\<rparr>,
                                              None)))))))"

definition Run ::
  "'s engine \<Rightarrow> context \<Rightarrow> string \<Rightarrow> Option list \<Rightarrow> ('s, Result option \<times> error option) prog" where
  "Run E ctx packagePath opts =
     (case NewOptions packagePath opts of
        Inl err \<Rightarrow> return (None, Some (WrapError ''invalid options'' err))
      | Inr options \<Rightarrow>
          (if Timeout options > 0
           then deferring (cancel (WithTimeoutCtx ctx (Timeout options)))
                  (Run_steps E (WithTimeoutCtx ctx (Timeout options)) options)
           else Run_steps E ctx options))"

text \<open>A run of the program from a world, with nothing recorded yet.\<close>

definition start :: "'s \<Rightarrow> 's state" where
  "start w = \<lparr>trace = [], world = w\<rparr>"

section \<open>A simulated engine\<close>

text \<open>
  A concrete world for running the model: the world is a clock in nanoseconds, a context
  derived at time 0 with timeout \<open>d\<close> expires at time \<open>d\<close>, and every call on the engine
  takes a fixed time and gives a fixed answer unless its context expires first.
\<close>

fun deadline :: "context \<Rightarrow> int option" where
  "deadline Background = None"
| "deadline (WithTimeoutCtx parent d) =
     (case deadline parent of None \<Rightarrow> Some d | Some t \<Rightarrow> Some (min t d))"

definition sim_ctx_Err :: "context \<Rightarrow> nat \<Rightarrow> error option" where
  "sim_ctx_Err ctx now =
     (case deadline ctx of
        None \<Rightarrow> None
      | Some t \<Rightarrow> if t \<le> int now then Some DeadlineExceeded else None)"

definition timed :: "context \<Rightarrow> nat \<Rightarrow> error + 'a \<Rightarrow> nat \<Rightarrow> (error + 'a) outcome \<times> nat" where
  "timed ctx dur answer now =
     (case deadline ctx of
        None \<Rightarrow> (Returned answer, now + dur)
      | Some t \<Rightarrow>
          if t \<le> int (now + dur) then (Returned (Inl DeadlineExceeded), max now (nat t))
          else (Returned answer, now + dur))"

definition timed_cleanup :: "context \<Rightarrow> error option \<Rightarrow> nat \<Rightarrow> error option outcome \<times> nat" where
  "timed_cleanup ctx answer now =
     (case sim_ctx_Err ctx now of
        Some e \<Rightarrow> (Returned (Some e), now)
      | None \<Rightarrow> (Returned answer, now))"

record scenario =
  sc_fs :: filesystem
  sc_network :: "nat \<times> (error + tc_network)"
  sc_container :: "nat \<times> (error + tc_container)"
  sc_exec :: "nat \<times> (error + int \<times> Reader option)"
  sc_copy :: "error + Reader"
  sc_read :: "Reader \<Rightarrow> bytes \<times> error option"
  sc_terminate :: "error option"
  sc_remove :: "error option"

definition sim_engine :: "scenario \<Rightarrow> nat engine" where
  "sim_engine sc =
     \<lparr>ctx_Err = sim_ctx_Err,
      os_fs = (\<lambda>now. sc_fs sc),
      network_New = (\<lambda>ctx. timed ctx (fst (sc_network sc)) (snd (sc_network sc))),
      network_Remove = (\<lambda>net ctx. timed_cleanup ctx (sc_remove sc)),
      WithNetwork = (\<lambda>aliases net req.
        Inr (req\<lparr>Networks := Networks req @ [net_Name net],
                 NetworkAliases :=
                   filter (\<lambda>(k, v). k \<noteq> net_Name net) (NetworkAliases req)
                   @ [(net_Name net, aliases)]\<rparr>)),
      WithHostConfigModifier = (\<lambda>m req. Inr (req\<lparr>Mounts := Mounts req @ [m]\<rparr>)),
      GenericContainer = (\<lambda>ctx req. timed ctx (fst (sc_container sc)) (snd (sc_container sc))),
      ctr_Exec = (\<lambda>h ctx cmd. timed ctx (fst (sc_exec sc)) (snd (sc_exec sc))),
      ctr_CopyFileFromContainer = (\<lambda>h ctx path. timed ctx 0 (sc_copy sc)),
      ctr_Terminate = (\<lambda>h ctx. timed_cleanup ctx (sc_terminate sc)),
      io_ReadAll = (\<lambda>rd now. (Returned (sc_read sc rd), now)),
      io_Close = (\<lambda>rd now. (Returned None, now)),
      Duration_String = (\<lambda>d. ''10m0s'')\<rparr>"

text \<open>A package directory with a module file, a subdirectory with a source file and a link.\<close>

definition regular :: "bytes \<Rightarrow> fnode" where
  "regular b =
     RegularFile (6 * 64 + 4 * 8 + 4) (length b)
       (Inr \<lparr>f_data = b, f_readErr = None, f_closeErr = None\<rparr>)"

definition pkg_tree :: fnode where
  "pkg_tree =
     Directory (7 * 64 + 5 * 8 + 5) (Inr
       [(''Dockerfile'', regular ''FROM original:latest''),
        (''go.mod'', regular ''module test''),
        (''latest'', Symlink (7 * 64 + 7 * 8 + 7) (Inr ''subdir/helper.go'')),
        (''subdir'', Directory (7 * 64 + 5 * 8 + 5) (Inr
           [(''Dockerfile'', regular ''FROM nested:latest''),
            (''helper.go'', regular ''package subdir'')]))])"

definition pkg_fs :: filesystem where
  "pkg_fs =
     \<lparr>ReadFile = (\<lambda>path.
        if path = ''/pkg/Dockerfile'' then Inr ''FROM original:latest''
        else if path = ''/etc/external.Dockerfile'' then Inr ''FROM golang:1.21''
        else Inl (WrapError (''open '' @ path) ErrNotExist)),
      DirFS = (\<lambda>path.
        if path = ''/pkg'' then Inr pkg_tree
        else Inl (WrapError (''stat .'') ErrNotExist)),
      Stat = (\<lambda>path.
        if path = ''/pkg'' then None else Some (WrapError (''stat '' @ path) ErrNotExist)),
      Getwd = Inr ''/home''\<rparr>"

text \<open>
  A run in which the tests fail with exit code 1 after 50 ns, and one in which the engine
  cannot deliver the coverage file although the container is alive.
\<close>

definition failing_tests :: scenario where
  "failing_tests =
     \<lparr>sc_fs = pkg_fs,
      sc_network = (1, Inr \<lparr>net_ID = 1, net_Name = ''net-1''\<rparr>),
      sc_container = (100, Inr 7),
      sc_exec = (50, Inr (1, Some 1)),
      sc_copy = Inr 2,
      sc_read = (\<lambda>rd. if rd = 1 then (''FAIL'', None) else (''mode: set'', None)),
      sc_terminate = Some (ErrorString ''No such container''),
      sc_remove = Some (ErrorString ''network has active endpoints'')\<rparr>"

definition copy_broken :: scenario where
  "copy_broken = failing_tests\<lparr>sc_copy := Inl (ErrorString ''connection reset by peer'')\<rparr>"

text \<open>
  Runs in which the engine cannot create the network, and in which it cannot create the
  container.
\<close>

definition network_down :: scenario where
  "network_down = failing_tests\<lparr>sc_network := (1, Inl (ErrorString ''daemon unreachable''))\<rparr>"

definition image_broken :: scenario where
  "image_broken = failing_tests\<lparr>sc_container := (100, Inl (ErrorString ''build failed''))\<rparr>"

section \<open>Definitions used to state the properties\<close>



fun configured_timeout :: "Duration \<Rightarrow> config_call list \<Rightarrow> Duration" where
  "configured_timeout current [] = current"
| "configured_timeout current (CallWithTimeout t # calls) = configured_timeout t calls"
| "configured_timeout current (c # calls) = configured_timeout current calls"

fun is_timeout_call :: "config_call \<Rightarrow> bool" where
  "is_timeout_call (CallWithTimeout t) = True"
| "is_timeout_call c = False"

text \<open>The two cleanup calls on the engine.\<close>

fun is_cleanup :: "event \<Rightarrow> bool" where
  "is_cleanup (EvTerminate h ctx) = True"
| "is_cleanup (EvNetworkRemove net ctx) = True"
| "is_cleanup ev = False"

text \<open>
  The engine in which the two cleanup calls change the world as before but report no
  error when they return.
\<close>

definition silence :: "error option outcome \<times> 's \<Rightarrow> error option outcome \<times> 's" where
  "silence r = (case r of (Returned err, w) \<Rightarrow> (Returned None, w) | (Panicked msg, w) \<Rightarrow> (Panicked msg, w))"

definition cleanup_succeeding :: "'s engine \<Rightarrow> 's engine" where
  "cleanup_succeeding E =
     E\<lparr>network_Remove := (\<lambda>net ctx w. silence (network_Remove E net ctx w)),
       ctr_Terminate := (\<lambda>h ctx w. silence (ctr_Terminate E h ctx w))\<rparr>"

text \<open>
  The context under which \<open>Run\<close> performs its steps, and the context an event carries.
\<close>

definition governing :: "context \<Rightarrow> Options \<Rightarrow> context" where
  "governing ctx options =
     (if Timeout options > 0 then WithTimeoutCtx ctx (Timeout options) else ctx)"

fun event_context :: "event \<Rightarrow> context option" where
  "event_context (EvNetworkNew c) = Some c"
| "event_context (EvNetworkRemove net c) = Some c"
| "event_context (EvGenericContainer c req) = Some c"
| "event_context (EvExec h c cmd) = Some c"
| "event_context (EvCopyFile h c path) = Some c"
| "event_context (EvTerminate h c) = Some c"
| "event_context (EvCancel c) = Some c"
| "event_context ev = None"

text \<open>
  \<open>only_emits P m\<close>: whatever the program \<open>m\<close> does, it only adds events to the record, and
  each of them satisfies \<open>P\<close>. \<open>step_event\<close> describes the events of the steps of \<open>Run\<close>.
\<close>

definition only_emits :: "(event \<Rightarrow> bool) \<Rightarrow> ('s, 'a) prog \<Rightarrow> bool" where
  "only_emits P m =
     (\<forall>s r s'. m s = (r, s') \<longrightarrow> (\<exists>evs. trace s' = trace s @ evs \<and> (\<forall>ev\<in>set evs. P ev)))"

fun step_event :: "context \<Rightarrow> Options \<Rightarrow> event \<Rightarrow> bool" where
  "step_event ctx options (EvNetworkNew c) = (c = ctx)"
| "step_event ctx options (EvNetworkCreated net) = True"
| "step_event ctx options (EvNetworkRemove net c) = (c = ctx)"
| "step_event ctx options (EvGenericContainer c req) = (c = ctx)"
| "step_event ctx options (EvContainerCreated h) = True"
| "step_event ctx options (EvExec h c cmd) =
     (c = ctx \<and>
      cmd = [''go'', ''test'', ''-coverprofile=/tmp/coverage.txt'', Pattern options]
            @ Args options)"
| "step_event ctx options (EvStdout b) = True"
| "step_event ctx options (EvCopyFile h c path) = (c = ctx \<and> path = ''/tmp/coverage.txt'')"
| "step_event ctx options (EvTerminate h c) = (c = ctx)"
| "step_event ctx options (EvReadAll rd) = True"
| "step_event ctx options (EvClose rd) = True"
| "step_event ctx options (EvCancel c) = (c = ctx)"

text \<open>
  \<open>emits m Q\<close>: the program \<open>m\<close> only adds events to the record, and its outcome and the
  events it adds satisfy \<open>Q\<close>. The key events are the two cleanup calls and the creation
  of the network and of the container, and \<open>cleanup_ordered\<close> says that when both were
  created the cleanup calls are the termination of the container, then the removal of
  the network.
\<close>

definition emits :: "('s, 'a) prog \<Rightarrow> ('a outcome \<Rightarrow> event list \<Rightarrow> bool) \<Rightarrow> bool" where
  "emits m Q = (\<forall>s r s'. m s = (r, s') \<longrightarrow> (\<exists>evs. trace s' = trace s @ evs \<and> Q r evs))"

fun is_key :: "event \<Rightarrow> bool" where
  "is_key (EvTerminate h ctx) = True"
| "is_key (EvNetworkRemove net ctx) = True"
| "is_key (EvNetworkCreated net) = True"
| "is_key (EvContainerCreated h) = True"
| "is_key ev = False"

definition cleanup_ordered :: "context \<Rightarrow> event list \<Rightarrow> bool" where
  "cleanup_ordered ctx evs =
     (\<forall>net h. EvNetworkCreated net \<in> set evs \<and> EvContainerCreated h \<in> set evs \<longrightarrow>
        filter is_cleanup evs = [EvTerminate h ctx, EvNetworkRemove net ctx])"

text \<open>
  The nodes of a tree with the paths \<^verbatim>\<open>fs.WalkDir\<close> gives them, and the archive entry
  that stands for a node: the header with the node's path, kind, permission bits and size,
  and the bytes of a regular file or the target of a symbolic link.
\<close>

fun nodes_under :: "string \<Rightarrow> fnode \<Rightarrow> (string \<times> fnode) list"
  and nodes_under_list :: "string \<Rightarrow> (string \<times> fnode) list \<Rightarrow> (string \<times> fnode) list"
where
  "nodes_under name (Directory perm (Inr dirs)) =
     (name, Directory perm (Inr dirs)) # nodes_under_list name dirs"
| "nodes_under name (Directory perm (Inl err)) = [(name, Directory perm (Inl err))]"
| "nodes_under name (RegularFile perm sz f) = [(name, RegularFile perm sz f)]"
| "nodes_under name (Symlink perm target) = [(name, Symlink perm target)]"
| "nodes_under name (Special t perm) = [(name, Special t perm)]"
| "nodes_under name (NoInfo e) = [(name, NoInfo e)]"
| "nodes_under_list name [] = []"
| "nodes_under_list name ((n1, d1) # rest) =
     nodes_under (Join name n1) d1 @ nodes_under_list name rest"

fun expected_entry :: "string \<Rightarrow> fnode \<Rightarrow> (Header \<times> bytes) option" where
  "expected_entry path (RegularFile perm sz (Inr f)) =
     Some (\<lparr>Typeflag = TypeReg, Name = path, Linkname = [], Size = sz, Mode = perm\<rparr>, f_data f)"
| "expected_entry path (RegularFile perm sz (Inl e)) = None"
| "expected_entry path (Directory perm dirs) =
     Some (\<lparr>Typeflag = TypeDir, Name = path, Linkname = [], Size = 0, Mode = perm\<rparr>, [])"
| "expected_entry path (Symlink perm (Inr target)) =
     Some (\<lparr>Typeflag = TypeSymlink, Name = path, Linkname = target, Size = 0, Mode = perm\<rparr>, [])"
| "expected_entry path (Symlink perm (Inl e)) = None"
| "expected_entry path (Special NamedPipe perm) =
     Some (\<lparr>Typeflag = TypeFifo, Name = path, Linkname = [], Size = 0, Mode = perm\<rparr>, [])"
| "expected_entry path (Special CharDevice perm) =
     Some (\<lparr>Typeflag = TypeChar, Name = path, Linkname = [], Size = 0, Mode = perm\<rparr>, [])"
| "expected_entry path (Special BlockDevice perm) =
     Some (\<lparr>Typeflag = TypeBlock, Name = path, Linkname = [], Size = 0, Mode = perm\<rparr>, [])"
| "expected_entry path (Special Socket perm) = None"
| "expected_entry path (Special Irregular perm) = None"
| "expected_entry path (NoInfo e) = None"

text \<open>The recipe entry that CreateTarContext appends for a content.\<close>

definition recipe_entry :: "bytes \<Rightarrow> Header \<times> bytes" where
  "recipe_entry content =
     (\<lparr>Typeflag = TypeReg, Name = ''Dockerfile'', Linkname = [], Size = length content,
       Mode = 420\<rparr>, content)"

text \<open>The paths the walk function does not skip.\<close>

definition kept_path :: "string \<Rightarrow> bool" where
  "kept_path p = (p \<noteq> ''.'' \<and> Base p \<noteq> ''Dockerfile'')"

section \<open>Properties\<close>

subsection \<open>The events of a run\<close>

lemma only_emits_return [simp]: "only_emits P (return a)"
  by (simp add: only_emits_def return_def)

lemma only_emits_panic [simp]: "only_emits P (panic a)"
  by (simp add: only_emits_def panic_def)

lemma only_emits_Err_now [simp]: "only_emits P (Err_now E c)"
  by (simp add: only_emits_def Err_now_def)

lemma only_emits_fs_now [simp]: "only_emits P (fs_now E)"
  by (simp add: only_emits_def fs_now_def)

lemma only_emits_emit [simp]: "P ev \<Longrightarrow> only_emits P (emit ev)"
  by (simp add: only_emits_def emit_def)

lemma only_emits_call [simp]: "P ev \<Longrightarrow> only_emits P (call ev f)"
  by (auto simp add: only_emits_def call_def split: prod.splits)

lemma only_emits_bindP :
  assumes "only_emits P m" and "\<And>a. only_emits P (f a)"
  shows "only_emits P (bindP m f)"
proof (unfold only_emits_def, intro allI impI)
  fix s r s'
  assume run: "bindP m f s = (r, s')"
  obtain r1 s1 where m: "m s = (r1, s1)" by (cases "m s")
  from assms(1) m obtain evs1 where e1: "trace s1 = trace s @ evs1" "\<forall>ev\<in>set evs1. P ev"
    unfolding only_emits_def by blast
  show "\<exists>evs. trace s' = trace s @ evs \<and> (\<forall>ev\<in>set evs. P ev)"
  proof (cases r1)
    case (Returned a)
    with run m have "f a s1 = (r, s')" by (simp add: bindP_def)
    with assms(2) obtain evs2 where "trace s' = trace s1 @ evs2" "\<forall>ev\<in>set evs2. P ev"
      unfolding only_emits_def by blast
    with e1 show ?thesis by (intro exI[of _ "evs1 @ evs2"]) auto
  next
    case (Panicked msg)
    with run m have "s' = s1" by (simp add: bindP_def)
    with e1 show ?thesis by blast
  qed
qed

lemma only_emits_deferring :
  assumes "only_emits P f" and "only_emits P rest"
  shows "only_emits P (deferring f rest)"
proof (unfold only_emits_def, intro allI impI)
  fix s r s'
  assume run: "deferring f rest s = (r, s')"
  obtain r1 s1 where m: "rest s = (r1, s1)" by (cases "rest s")
  obtain r2 s2 where d: "f s1 = (r2, s2)" by (cases "f s1")
  from assms(2) m obtain evs1 where e1: "trace s1 = trace s @ evs1" "\<forall>ev\<in>set evs1. P ev"
    unfolding only_emits_def by blast
  from assms(1) d obtain evs2 where e2: "trace s2 = trace s1 @ evs2" "\<forall>ev\<in>set evs2. P ev"
    unfolding only_emits_def by blast
  from run m d have "s' = s2" by (cases r2) (simp_all add: deferring_def)
  with e1 e2 show "\<exists>evs. trace s' = trace s @ evs \<and> (\<forall>ev\<in>set evs. P ev)"
    by (intro exI[of _ "evs1 @ evs2"]) auto
qed

lemma only_emits_discard: "only_emits P m \<Longrightarrow> only_emits P (discard m)"
  unfolding discard_def by (rule only_emits_bindP) simp_all

lemma only_emits_return_wrap [simp]: "only_emits P (return_wrapTimeoutError E ctx err operation)"
  unfolding return_wrapTimeoutError_def by (rule only_emits_bindP) simp_all

lemma only_emits_cancel [simp]: "P (EvCancel ctx) \<Longrightarrow> only_emits P (cancel ctx)"
  unfolding cancel_def by simp

lemma bindP_return [simp]: "bindP (return a) f = f a"
  by (simp add: bindP_def return_def)

lemma bindP_panic [simp]: "bindP (panic msg) f = panic msg"
  by (simp add: bindP_def panic_def)

lemma bindP_assoc [simp]: "bindP (bindP m f) g = bindP m (\<lambda>a. bindP (f a) g)"
  by (auto simp add: bindP_def fun_eq_iff split: prod.splits outcome.splits)

lemma Run_steps_events: "only_emits (step_event ctx options) (Run_steps E ctx options)"
  unfolding Run_steps_def CreateNetwork_def CreateContainer_def network_cleanup_def
    Terminate_def execTestWithStreaming_def CopyCoverage_def CopyFileFromContainer_def
    DefaultCoverageFile_def
  by ((simp split: option.split sum.split prod.split add: Let_def
      | rule only_emits_bindP only_emits_deferring only_emits_discard conjI allI impI)+)

lemma only_emits_mono:
  "only_emits P m \<Longrightarrow> (\<And>ev. P ev \<Longrightarrow> Q ev) \<Longrightarrow> only_emits Q m"
  unfolding only_emits_def by blast

lemma Run_events:
  assumes "NewOptions pkg opts = Inr options"
  shows "only_emits (step_event (governing ctx options) options) (Run E ctx pkg opts)"
  using assms Run_steps_events[of "governing ctx options" options E]
  by (auto simp add: Run_def governing_def intro!: only_emits_deferring)

lemma Run_trace:
  assumes "NewOptions pkg opts = Inr options" and "Run E ctx pkg opts (start w) = (r, s')"
  shows "\<forall>ev\<in>set (trace s'). step_event (governing ctx options) options ev"
  using Run_events[OF assms(1), of ctx E] assms(2)
  unfolding only_emits_def start_def by fastforce



lemma apply_opts_append:
  "apply_opts (xs @ ys) options = apply_opts ys (apply_opts xs options)"
  by (induction xs arbitrary: options) simp_all

subsection \<open>The order of the cleanup calls\<close>

lemma emits_return: "Q (Returned a) [] \<Longrightarrow> emits (return a) Q"
  by (simp add: emits_def return_def)

lemma emits_panic: "Q (Panicked msg) [] \<Longrightarrow> emits (panic msg) Q"
  by (simp add: emits_def panic_def)

lemma emits_Err_now: "(\<And>x. Q (Returned x) []) \<Longrightarrow> emits (Err_now E c) Q"
  by (simp add: emits_def Err_now_def)

lemma emits_fs_now: "(\<And>x. Q (Returned x) []) \<Longrightarrow> emits (fs_now E) Q"
  by (simp add: emits_def fs_now_def)

lemma emits_emit: "Q (Returned ()) [ev] \<Longrightarrow> emits (emit ev) Q"
  by (simp add: emits_def emit_def)

lemma emits_call: "(\<And>r. Q r [ev]) \<Longrightarrow> emits (call ev f) Q"
  by (auto simp add: emits_def call_def split: prod.splits)

lemma emits_bindP:
  assumes "emits m (\<lambda>r e1. case r of
                       Panicked msg \<Rightarrow> Q (Panicked msg) e1
                     | Returned a \<Rightarrow> emits (f a) (\<lambda>r2 e2. Q r2 (e1 @ e2)))"
  shows "emits (bindP m f) Q"
proof (unfold emits_def, intro allI impI)
  fix s r s'
  assume run: "bindP m f s = (r, s')"
  obtain r1 s1 where m: "m s = (r1, s1)" by (cases "m s")
  from assms m obtain e1 where e1: "trace s1 = trace s @ e1"
    and q1: "case r1 of Panicked msg \<Rightarrow> Q (Panicked msg) e1
                | Returned a \<Rightarrow> emits (f a) (\<lambda>r2 e2. Q r2 (e1 @ e2))"
    unfolding emits_def by blast
  show "\<exists>evs. trace s' = trace s @ evs \<and> Q r evs"
  proof (cases r1)
    case (Returned a)
    with run m have fa: "f a s1 = (r, s')" by (simp add: bindP_def)
    from q1 Returned have "emits (f a) (\<lambda>r2 e2. Q r2 (e1 @ e2))" by simp
    with fa obtain e2 where "trace s' = trace s1 @ e2" "Q r (e1 @ e2)"
      unfolding emits_def by blast
    with e1 show ?thesis by (intro exI[of _ "e1 @ e2"]) simp
  next
    case (Panicked msg)
    with run m have "s' = s1" "r = Panicked msg" by (simp_all add: bindP_def)
    with e1 q1 Panicked show ?thesis by auto
  qed
qed

lemma emits_deferring:
  assumes "emits rest (\<lambda>r e1. emits f (\<lambda>r2 e2. case r2 of
                                    Returned u \<Rightarrow> Q r (e1 @ e2)
                                  | Panicked msg \<Rightarrow> Q (Panicked msg) (e1 @ e2)))"
  shows "emits (deferring f rest) Q"
proof (unfold emits_def, intro allI impI)
  fix s r s'
  assume run: "deferring f rest s = (r, s')"
  obtain r1 s1 where m: "rest s = (r1, s1)" by (cases "rest s")
  obtain r2 s2 where d: "f s1 = (r2, s2)" by (cases "f s1")
  from assms m obtain e1 where e1: "trace s1 = trace s @ e1"
    and q1: "emits f (\<lambda>r2 e2. case r2 of Returned u \<Rightarrow> Q r1 (e1 @ e2)
                                  | Panicked msg \<Rightarrow> Q (Panicked msg) (e1 @ e2))"
    unfolding emits_def by blast
  from q1 d obtain e2 where e2: "trace s2 = trace s1 @ e2"
    and q2: "case r2 of Returned u \<Rightarrow> Q r1 (e1 @ e2) | Panicked msg \<Rightarrow> Q (Panicked msg) (e1 @ e2)"
    unfolding emits_def by blast
  from run m d have "s' = s2" "r = (case r2 of Returned u \<Rightarrow> r1 | Panicked msg \<Rightarrow> Panicked msg)"
    by (cases r2; simp add: deferring_def)+
  with e1 e2 q2 show "\<exists>evs. trace s' = trace s @ evs \<and> Q r evs"
    by (intro exI[of _ "e1 @ e2"]) (auto split: outcome.splits)
qed

lemma emits_discard:
  assumes "emits m (\<lambda>r e. case r of Returned a \<Rightarrow> Q (Returned ()) e
                               | Panicked msg \<Rightarrow> Q (Panicked msg) e)"
  shows "emits (discard m) Q"
proof (unfold emits_def, intro allI impI)
  fix s r s'
  assume run: "discard m s = (r, s')"
  obtain r1 s1 where m: "m s = (r1, s1)" by (cases "m s")
  from assms m obtain e1 where e1: "trace s1 = trace s @ e1"
    and q1: "case r1 of Returned a \<Rightarrow> Q (Returned ()) e1 | Panicked msg \<Rightarrow> Q (Panicked msg) e1"
    unfolding emits_def by blast
  from run m have "s' = s1" "r = (case r1 of Returned a \<Rightarrow> Returned () | Panicked msg \<Rightarrow> Panicked msg)"
    by (cases r1; simp add: discard_def bindP_def return_def)+
  with e1 q1 show "\<exists>evs. trace s' = trace s @ evs \<and> Q r evs"
    by (intro exI[of _ e1]) (auto split: outcome.splits)
qed

lemma emits_weaken:
  "emits m Q0 \<Longrightarrow> (\<And>r e. Q0 r e \<Longrightarrow> Q r e) \<Longrightarrow> emits m Q"
  unfolding emits_def by blast

lemma emits_from_only_emits:
  "only_emits P m \<Longrightarrow> (\<And>r e. \<forall>ev\<in>set e. P ev \<Longrightarrow> Q r e) \<Longrightarrow> emits m Q"
  unfolding emits_def only_emits_def by blast

lemma exec_quiet: "only_emits (\<lambda>ev. \<not> is_key ev) (execTestWithStreaming E ctx c options)"
  unfolding execTestWithStreaming_def
  by ((simp split: option.split sum.split prod.split add: Let_def
      | rule only_emits_bindP only_emits_deferring only_emits_discard conjI allI impI)+)

lemma copy_quiet: "only_emits (\<lambda>ev. \<not> is_key ev) (CopyCoverage E c ctx)"
  unfolding CopyCoverage_def CopyFileFromContainer_def
  by ((simp split: option.split sum.split prod.split add: Let_def
      | rule only_emits_bindP only_emits_deferring only_emits_discard conjI allI impI)+)

lemma CreateContainer_spec:
  "emits (CreateContainer E ctx cfg)
     (\<lambda>r evs. (\<forall>ev\<in>set evs. \<not> is_cleanup ev \<and> (\<forall>net. ev \<noteq> EvNetworkCreated net))
              \<and> (\<forall>h. EvContainerCreated h \<in> set evs \<longrightarrow>
                    (\<exists>c. r = Returned (Some c, None) \<and> ctr c = Some h)))"
  unfolding CreateContainer_def
  by ((rule emits_bindP emits_call emits_emit emits_return emits_fs_now allI impI conjI
      | simp split: option.split sum.split prod.split outcome.split add: Let_def)+)

lemma filter_quiet: "\<forall>ev\<in>set e. \<not> is_key ev \<Longrightarrow> filter is_cleanup e = []"
  by (induction e) (auto elim: is_cleanup.elims)

lemma quiet_no_container: "\<forall>ev\<in>set e. \<not> is_key ev \<Longrightarrow> (EvContainerCreated h \<in> set e) = False"
  by auto

lemma quiet_no_network: "\<forall>ev\<in>set e. \<not> is_key ev \<Longrightarrow> (EvNetworkCreated net \<in> set e) = False"
  by auto

lemma cc_no_network:
  "\<forall>ev\<in>set e. \<not> is_cleanup ev \<and> (\<forall>net. ev \<noteq> EvNetworkCreated net)
   \<Longrightarrow> (EvNetworkCreated net \<in> set e) = False"
  by auto

lemma cc_filter:
  "\<forall>ev\<in>set e. \<not> is_cleanup ev \<and> (\<forall>net. ev \<noteq> EvNetworkCreated net)
   \<Longrightarrow> filter is_cleanup e = []"
  by (induction e) auto

lemma emits_deferring_ev:
  "emits rest (\<lambda>r e1. emits f (\<lambda>r2 e2. Q (e1 @ e2))) \<Longrightarrow> emits (deferring f rest) (\<lambda>r. Q)"
  by (rule emits_deferring, erule emits_weaken, erule emits_weaken)
    (simp split: outcome.split)

lemma emits_discard_ev: "emits m (\<lambda>r. Q) \<Longrightarrow> emits (discard m) (\<lambda>r. Q)"
  by (rule emits_discard, erule emits_weaken) (simp split: outcome.split)

lemma Run_steps_cleanup_order:
  "emits (Run_steps E ctx options) (\<lambda>r evs. cleanup_ordered ctx evs)"
  unfolding Run_steps_def CreateNetwork_def network_cleanup_def
    Terminate_def return_wrapTimeoutError_def cleanup_ordered_def
  by ((rule emits_weaken[OF CreateContainer_spec] emits_from_only_emits[OF exec_quiet]
        emits_from_only_emits[OF copy_quiet] emits_deferring_ev emits_discard_ev emits_bindP
        emits_call emits_emit emits_return emits_panic emits_Err_now allI impI conjI
      | simp split: option.split sum.split prod.split outcome.split
          add: filter_quiet quiet_no_container quiet_no_network cc_no_network cc_filter
      | force)+)

lemma cleanup_ordered_cancel:
  "cleanup_ordered g e \<Longrightarrow> cleanup_ordered g (e @ [EvCancel c])"
  by (simp add: cleanup_ordered_def)

lemma Run_cleanup_order:
  "emits (Run E ctx pkg opts) (\<lambda>r evs. \<exists>c. cleanup_ordered c evs)"
proof (cases "NewOptions pkg opts")
  case (Inl e)
  then show ?thesis
    by (simp add: Run_def emits_def return_def cleanup_ordered_def)
next
  case (Inr options)
  show ?thesis
  proof (cases "Timeout options > 0")
    case True
    have "emits (deferring (cancel (WithTimeoutCtx ctx (Timeout options)))
                  (Run_steps E (WithTimeoutCtx ctx (Timeout options)) options))
            (\<lambda>r evs. \<exists>c. cleanup_ordered c evs)"
      unfolding cancel_def
      by (rule emits_deferring_ev, rule emits_weaken[OF Run_steps_cleanup_order],
          rule emits_emit) (blast intro: cleanup_ordered_cancel)
    with Inr True show ?thesis by (simp add: Run_def)
  next
    case False
    have "emits (Run_steps E ctx options) (\<lambda>r evs. \<exists>c. cleanup_ordered c evs)"
      by (rule emits_weaken[OF Run_steps_cleanup_order]) blast
    with Inr False show ?thesis by (simp add: Run_def)
  qed
qed

lemma bindP_case_sum:
  "bindP (case r of Inl a \<Rightarrow> f a | Inr b \<Rightarrow> g b) k
   = (case r of Inl a \<Rightarrow> bindP (f a) k | Inr b \<Rightarrow> bindP (g b) k)"
  by (cases r) simp_all

lemma silence_discard:
  fixes f :: "'s \<Rightarrow> error option outcome \<times> 's"
  assumes "\<And>a s. \<exists>b. k a s = (Returned b, s)" "\<And>a s. \<exists>b. k' a s = (Returned b, s)"
  shows "discard (bindP (call ev (\<lambda>w. silence (f w))) k) = discard (bindP (call ev f) k')"
proof (rule ext)
  fix s :: "'s state"
  obtain r w where f: "f (world s) = (r, w)" by (cases "f (world s)")
  show "discard (bindP (call ev (\<lambda>w. silence (f w))) k) s = discard (bindP (call ev f) k') s"
  proof (cases r)
    case (Returned a)
    let ?s1 = "\<lparr>trace = trace s @ [ev], world = w\<rparr>"
    from assms(1)[of None ?s1] obtain b where k: "k None ?s1 = (Returned b, ?s1)" by blast
    from assms(2)[of a ?s1] obtain b' where k': "k' a ?s1 = (Returned b', ?s1)" by blast
    from f Returned k k' show ?thesis
      by (simp add: discard_def bindP_def call_def silence_def return_def)
  next
    case (Panicked msg)
    with f show ?thesis
      by (simp add: discard_def bindP_def call_def silence_def return_def)
  qed
qed

lemma Terminate_silenced:
  "discard (Terminate (cleanup_succeeding E) c ctx) = discard (Terminate E c ctx)"
proof (cases "ctr c")
  case None
  then show ?thesis by (simp add: Terminate_def)
next
  case (Some h)
  then show ?thesis
    unfolding Terminate_def cleanup_succeeding_def
    by (simp, intro silence_discard) (auto simp add: return_def split: option.splits)
qed

lemma network_cleanup_silenced:
  "discard (network_cleanup (cleanup_succeeding E) net ctx) = discard (network_cleanup E net ctx)"
  unfolding network_cleanup_def cleanup_succeeding_def
  by (simp, intro silence_discard) (auto simp add: return_def split: option.splits)

lemma cleanup_succeeding_sel:
  "ctx_Err (cleanup_succeeding E) = ctx_Err E"
  "os_fs (cleanup_succeeding E) = os_fs E"
  "network_New (cleanup_succeeding E) = network_New E"
  "WithNetwork (cleanup_succeeding E) = WithNetwork E"
  "WithHostConfigModifier (cleanup_succeeding E) = WithHostConfigModifier E"
  "GenericContainer (cleanup_succeeding E) = GenericContainer E"
  "ctr_Exec (cleanup_succeeding E) = ctr_Exec E"
  "ctr_CopyFileFromContainer (cleanup_succeeding E) = ctr_CopyFileFromContainer E"
  "io_ReadAll (cleanup_succeeding E) = io_ReadAll E"
  "io_Close (cleanup_succeeding E) = io_Close E"
  by (simp_all add: cleanup_succeeding_def)

lemma Run_steps_silenced:
  "Run_steps (cleanup_succeeding E) ctx options = Run_steps E ctx options"
  unfolding Run_steps_def CreateNetwork_def CreateContainer_def execTestWithStreaming_def
    CopyCoverage_def CopyFileFromContainer_def return_wrapTimeoutError_def Err_now_def
    fs_now_def apply_network_option_def apply_host_config_option_def
    cleanup_succeeding_sel bindP_assoc bindP_case_sum bindP_return prod.case option.case
    Terminate_silenced network_cleanup_silenced
  by (rule refl)

lemma Run_silenced: "Run (cleanup_succeeding E) ctx pkg opts = Run E ctx pkg opts"
  by (simp add: Run_def Run_steps_silenced split: sum.split)

subsection \<open>Errors and their classification\<close>

lemma is_chain_refl: "is_chain e e"
  by (cases e) simp_all

lemma Run_steps_error_tied:
  assumes "Run_steps E g options s0 = (Returned (res, Some err), s')"
  shows "res = None \<and>
   ((\<exists>a b e s1. CreateNetwork E g s0 = (Returned (a, b, Some e), s1)
        \<and> wrapTimeoutError (ctx_Err E g (world s1)) (Some e) ''create network'' = Some err)
    \<or> (\<exists>n cleanup s1 a e s2.
          CreateNetwork E g s0 = (Returned (Some n, cleanup, None), s1)
        \<and> CreateContainer E g
             \<lparr>cfg_PackagePath = PackagePath options, cfg_Network = Some n,
              cfg_Aliases = Aliases options, cfg_EnableVarSock = EnableVarSock options,
              cfg_SockPath = SockPath options, cfg_NetworkName = dn_Name n,
              cfg_DockerfilePath = []\<rparr> s1 = (Returned (a, Some e), s2)
        \<and> wrapTimeoutError (ctx_Err E g (world s2)) (Some e) ''create container'' = Some err)
    \<or> (\<exists>n cleanup s1 c s2 a e s3.
          CreateNetwork E g s0 = (Returned (Some n, cleanup, None), s1)
        \<and> CreateContainer E g
             \<lparr>cfg_PackagePath = PackagePath options, cfg_Network = Some n,
              cfg_Aliases = Aliases options, cfg_EnableVarSock = EnableVarSock options,
              cfg_SockPath = SockPath options, cfg_NetworkName = dn_Name n,
              cfg_DockerfilePath = []\<rparr> s1 = (Returned (Some c, None), s2)
        \<and> execTestWithStreaming E g c options s2 = (Returned (a, Some e), s3)
        \<and> wrapTimeoutError (ctx_Err E g (world s3)) (Some e) ''execute tests'' = Some err))"
  using assms
  unfolding Run_steps_def bindP_def deferring_def return_def panic_def
    return_wrapTimeoutError_def Err_now_def
  by (auto split: prod.splits outcome.splits option.splits if_splits)

lemma Run_steps_of_Run:
  assumes "NewOptions pkg opts = Inr options"
    and "Run E ctx pkg opts s0 = (Returned x, s')"
  shows "\<exists>s''. Run_steps E (governing ctx options) options s0 = (Returned x, s'')"
  using assms
  by (auto simp add: Run_def governing_def deferring_def cancel_def emit_def
      split: if_splits prod.splits outcome.splits)

lemma Run_invalid_error:
  assumes "NewOptions pkg opts = Inl e"
  shows "Run E ctx pkg opts s0 = (Returned (None, Some (WrapError ''invalid options'' e)), s0)"
  using assms by (simp add: Run_def return_def)

lemma Run_steps_network_error:
  assumes "CreateNetwork E g s0 = (Returned (a, b, Some e), s1)"
  shows "Run_steps E g options s0
         = (Returned (None, wrapTimeoutError (ctx_Err E g (world s1)) (Some e) ''create network''), s1)"
  using assms
  by (simp add: Run_steps_def bindP_def return_wrapTimeoutError_def Err_now_def return_def)

lemma Run_steps_container_error:
  assumes "CreateNetwork E g s0 = (Returned (Some n, Some cleanup, None), s1)"
    and "CreateContainer E g
           \<lparr>cfg_PackagePath = PackagePath options, cfg_Network = Some n,
            cfg_Aliases = Aliases options, cfg_EnableVarSock = EnableVarSock options,
            cfg_SockPath = SockPath options, cfg_NetworkName = dn_Name n,
            cfg_DockerfilePath = []\<rparr> s1 = (Returned (a, Some e), s2)"
    and "discard (cleanup g) s2 = (Returned (), s3)"
  shows "Run_steps E g options s0
         = (Returned (None, wrapTimeoutError (ctx_Err E g (world s2)) (Some e) ''create container''), s3)"
  using assms
  by (simp add: Run_steps_def bindP_def deferring_def return_wrapTimeoutError_def Err_now_def
      return_def)

lemma Run_steps_tests_error:
  assumes "CreateNetwork E g s0 = (Returned (Some n, Some cleanup, None), s1)"
    and "CreateContainer E g
           \<lparr>cfg_PackagePath = PackagePath options, cfg_Network = Some n,
            cfg_Aliases = Aliases options, cfg_EnableVarSock = EnableVarSock options,
            cfg_SockPath = SockPath options, cfg_NetworkName = dn_Name n,
            cfg_DockerfilePath = []\<rparr> s1 = (Returned (Some c, None), s2)"
    and "execTestWithStreaming E g c options s2 = (Returned (a, Some e), s3)"
    and "discard (Terminate E c g) s3 = (Returned (), s4)"
    and "discard (cleanup g) s4 = (Returned (), s5)"
  shows "Run_steps E g options s0
         = (Returned (None, wrapTimeoutError (ctx_Err E g (world s3)) (Some e) ''execute tests''), s5)"
  using assms
  by (simp add: Run_steps_def bindP_def deferring_def return_wrapTimeoutError_def Err_now_def
      return_def)

lemma Run_success:
  assumes "NewOptions pkg opts = Inr options"
    and "Run_steps E (governing ctx options) options s0 = (Returned x, s6)"
  shows "fst (Run E ctx pkg opts s0) = Returned x"
  using assms
  by (auto simp add: Run_def governing_def deferring_def cancel_def emit_def split: if_splits)

text \<open>
  C4 (as stated): an error that surfaces under an expired context becomes a TimeoutError
  whose message is "timeout during <phase>". The message the code builds also carries the
  cause: for the phase "create network" and the cause "boom" it is
  "timeout during create network: boom".
\<close>

theorem C4_timeout_message_counterexample:
  "map_option Error
     (wrapTimeoutError (Some DeadlineExceeded) (Some (ErrorString ''boom'')) ''create network'')
   \<noteq> Some ''timeout during create network''"
  by (simp add: wrapTimeoutError_def)

text \<open>
  C4 (amended): wrapping a nil error yields nil. For an error \<open>e\<close> and a phase: when the
  context's error is the exceeded deadline the result is the TimeoutError of the phase and
  \<open>e\<close>, whose message is "timeout during <phase>: <e>" and which unwraps to \<open>e\<close>; when it
  is not, the result is the wrapped error with message "failed to <phase>: <e>", which
  unwraps to \<open>e\<close>. In a run of \<open>Run\<close> from a state, under the governing context of its
  options: when the creation of the network returns the error \<open>e\<close>, \<open>Run\<close> returns what
  \<open>wrapTimeoutError\<close> makes of \<open>e\<close> for the phase "create network" and the error of the
  governing context in the world the creation left; when the network is created and the
  creation of the container returns \<open>e\<close>, the same for "create container"; when both are
  created and the execution of the tests returns \<open>e\<close>, the same for "execute tests"
  (the deferred cleanup calls returning). Conversely every error that \<open>Run\<close> returns is
  the "invalid options" error of the error of \<open>NewOptions\<close>, or is what
  \<open>wrapTimeoutError\<close> makes in one of these three cases, of the error of that phase of this
  run, for that phase and the error of the governing context in the world that phase left.
\<close>

theorem C4_wrapTimeoutError_classifies:
  "wrapTimeoutError c None ph = None
   \<and> (errors_Is c1 DeadlineExceeded \<longrightarrow>
        wrapTimeoutError c1 (Some e) ph = Some (TimeoutError ph e))
   \<and> Error (TimeoutError ph e) = ''timeout during '' @ ph @ '': '' @ Error e
   \<and> Unwrap (TimeoutError ph e) = Some e
   \<and> errors_Is (Some (TimeoutError ph e)) e
   \<and> (\<not> errors_Is c2 DeadlineExceeded \<longrightarrow>
        wrapTimeoutError c2 (Some e) ph = Some (WrapError (''failed to '' @ ph) e))
   \<and> Error (WrapError (''failed to '' @ ph) e) = ''failed to '' @ ph @ '': '' @ Error e
   \<and> Unwrap (WrapError (''failed to '' @ ph) e) = Some e
   \<and> errors_Is (Some (WrapError (''failed to '' @ ph) e)) e
   \<and> (NewOptions p opts = Inr options \<and> g = governing ctx options
        \<and> CreateNetwork E g s0 = (Returned (a1, b1, Some e1), s1)
      \<longrightarrow> fst (Run E ctx p opts s0)
           = Returned (None, wrapTimeoutError (ctx_Err E g (world s1)) (Some e1) ''create network''))
   \<and> (NewOptions p opts = Inr options \<and> g = governing ctx options
        \<and> CreateNetwork E g s0 = (Returned (Some n, Some cleanup, None), s1)
        \<and> CreateContainer E g
             \<lparr>cfg_PackagePath = PackagePath options, cfg_Network = Some n,
              cfg_Aliases = Aliases options, cfg_EnableVarSock = EnableVarSock options,
              cfg_SockPath = SockPath options, cfg_NetworkName = dn_Name n,
              cfg_DockerfilePath = []\<rparr> s1 = (Returned (a2, Some e2), s2)
        \<and> discard (cleanup g) s2 = (Returned (), s6)
      \<longrightarrow> fst (Run E ctx p opts s0)
           = Returned (None, wrapTimeoutError (ctx_Err E g (world s2)) (Some e2) ''create container''))
   \<and> (NewOptions p opts = Inr options \<and> g = governing ctx options
        \<and> CreateNetwork E g s0 = (Returned (Some n, Some cleanup, None), s1)
        \<and> CreateContainer E g
             \<lparr>cfg_PackagePath = PackagePath options, cfg_Network = Some n,
              cfg_Aliases = Aliases options, cfg_EnableVarSock = EnableVarSock options,
              cfg_SockPath = SockPath options, cfg_NetworkName = dn_Name n,
              cfg_DockerfilePath = []\<rparr> s1 = (Returned (Some container, None), s2)
        \<and> execTestWithStreaming E g container options s2 = (Returned (a3, Some e3), s3)
        \<and> discard (Terminate E container g) s3 = (Returned (), s5)
        \<and> discard (cleanup g) s5 = (Returned (), s6)
      \<longrightarrow> fst (Run E ctx p opts s0)
           = Returned (None, wrapTimeoutError (ctx_Err E g (world s3)) (Some e3) ''execute tests''))
   \<and> (Run E ctx p opts s0 = (Returned (res, Some err), s') \<longrightarrow>
        (\<exists>e0. NewOptions p opts = Inl e0 \<and> err = WrapError ''invalid options'' e0)
        \<or> (\<exists>opt t1 a b e0.
              NewOptions p opts = Inr opt
              \<and> CreateNetwork E (governing ctx opt) s0 = (Returned (a, b, Some e0), t1)
              \<and> wrapTimeoutError (ctx_Err E (governing ctx opt) (world t1)) (Some e0)
                   ''create network'' = Some err)
        \<or> (\<exists>opt net cl t1 t2 a e0.
              NewOptions p opts = Inr opt
              \<and> CreateNetwork E (governing ctx opt) s0 = (Returned (Some net, cl, None), t1)
              \<and> CreateContainer E (governing ctx opt)
                   \<lparr>cfg_PackagePath = PackagePath opt, cfg_Network = Some net,
                    cfg_Aliases = Aliases opt, cfg_EnableVarSock = EnableVarSock opt,
                    cfg_SockPath = SockPath opt, cfg_NetworkName = dn_Name net,
                    cfg_DockerfilePath = []\<rparr> t1 = (Returned (a, Some e0), t2)
              \<and> wrapTimeoutError (ctx_Err E (governing ctx opt) (world t2)) (Some e0)
                   ''create container'' = Some err)
        \<or> (\<exists>opt net cl t1 c0 t2 t3 a e0.
              NewOptions p opts = Inr opt
              \<and> CreateNetwork E (governing ctx opt) s0 = (Returned (Some net, cl, None), t1)
              \<and> CreateContainer E (governing ctx opt)
                   \<lparr>cfg_PackagePath = PackagePath opt, cfg_Network = Some net,
                    cfg_Aliases = Aliases opt, cfg_EnableVarSock = EnableVarSock opt,
                    cfg_SockPath = SockPath opt, cfg_NetworkName = dn_Name net,
                    cfg_DockerfilePath = []\<rparr> t1 = (Returned (Some c0, None), t2)
              \<and> execTestWithStreaming E (governing ctx opt) c0 opt t2
                   = (Returned (a, Some e0), t3)
              \<and> wrapTimeoutError (ctx_Err E (governing ctx opt) (world t3)) (Some e0)
                   ''execute tests'' = Some err))"
proof -
  have wrap: "wrapTimeoutError c None ph = None
   \<and> (errors_Is c1 DeadlineExceeded \<longrightarrow>
        wrapTimeoutError c1 (Some e) ph = Some (TimeoutError ph e))
   \<and> Error (TimeoutError ph e) = ''timeout during '' @ ph @ '': '' @ Error e
   \<and> Unwrap (TimeoutError ph e) = Some e
   \<and> errors_Is (Some (TimeoutError ph e)) e
   \<and> (\<not> errors_Is c2 DeadlineExceeded \<longrightarrow>
        wrapTimeoutError c2 (Some e) ph = Some (WrapError (''failed to '' @ ph) e))
   \<and> Error (WrapError (''failed to '' @ ph) e) = ''failed to '' @ ph @ '': '' @ Error e
   \<and> Unwrap (WrapError (''failed to '' @ ph) e) = Some e
   \<and> errors_Is (Some (WrapError (''failed to '' @ ph) e)) e"
    by (simp add: wrapTimeoutError_def is_chain_refl)
  have net: "fst (Run E ctx p opts s0)
           = Returned (None, wrapTimeoutError (ctx_Err E g (world s1)) (Some e1) ''create network'')"
    if "NewOptions p opts = Inr options \<and> g = governing ctx options
        \<and> CreateNetwork E g s0 = (Returned (a1, b1, Some e1), s1)"
  proof -
    from that have o: "NewOptions p opts = Inr options" and g: "g = governing ctx options"
      and n: "CreateNetwork E g s0 = (Returned (a1, b1, Some e1), s1)"
      by blast+
    from Run_steps_network_error[OF n, of options] g
    show ?thesis by (intro Run_success[OF o]) simp
  qed
  have con: "fst (Run E ctx p opts s0)
           = Returned (None, wrapTimeoutError (ctx_Err E g (world s2)) (Some e2) ''create container'')"
    if "NewOptions p opts = Inr options \<and> g = governing ctx options
        \<and> CreateNetwork E g s0 = (Returned (Some n, Some cleanup, None), s1)
        \<and> CreateContainer E g
             \<lparr>cfg_PackagePath = PackagePath options, cfg_Network = Some n,
              cfg_Aliases = Aliases options, cfg_EnableVarSock = EnableVarSock options,
              cfg_SockPath = SockPath options, cfg_NetworkName = dn_Name n,
              cfg_DockerfilePath = []\<rparr> s1 = (Returned (a2, Some e2), s2)
        \<and> discard (cleanup g) s2 = (Returned (), s6)"
  proof -
    from that have o: "NewOptions p opts = Inr options" and g: "g = governing ctx options"
      by blast+
    from that have "Run_steps E g options s0
         = (Returned (None, wrapTimeoutError (ctx_Err E g (world s2)) (Some e2) ''create container''), s6)"
      by (intro Run_steps_container_error) blast+
    with g show ?thesis by (intro Run_success[OF o]) simp
  qed
  have tst: "fst (Run E ctx p opts s0)
           = Returned (None, wrapTimeoutError (ctx_Err E g (world s3)) (Some e3) ''execute tests'')"
    if "NewOptions p opts = Inr options \<and> g = governing ctx options
        \<and> CreateNetwork E g s0 = (Returned (Some n, Some cleanup, None), s1)
        \<and> CreateContainer E g
             \<lparr>cfg_PackagePath = PackagePath options, cfg_Network = Some n,
              cfg_Aliases = Aliases options, cfg_EnableVarSock = EnableVarSock options,
              cfg_SockPath = SockPath options, cfg_NetworkName = dn_Name n,
              cfg_DockerfilePath = []\<rparr> s1 = (Returned (Some container, None), s2)
        \<and> execTestWithStreaming E g container options s2 = (Returned (a3, Some e3), s3)
        \<and> discard (Terminate E container g) s3 = (Returned (), s5)
        \<and> discard (cleanup g) s5 = (Returned (), s6)"
  proof -
    from that have o: "NewOptions p opts = Inr options" and g: "g = governing ctx options"
      by blast+
    from that have "Run_steps E g options s0
         = (Returned (None, wrapTimeoutError (ctx_Err E g (world s3)) (Some e3) ''execute tests''), s6)"
      by (intro Run_steps_tests_error) blast+
    with g show ?thesis by (intro Run_success[OF o]) simp
  qed
  have conv: "(\<exists>e0. NewOptions p opts = Inl e0 \<and> err = WrapError ''invalid options'' e0)
        \<or> (\<exists>opt t1 a b e0.
              NewOptions p opts = Inr opt
              \<and> CreateNetwork E (governing ctx opt) s0 = (Returned (a, b, Some e0), t1)
              \<and> wrapTimeoutError (ctx_Err E (governing ctx opt) (world t1)) (Some e0)
                   ''create network'' = Some err)
        \<or> (\<exists>opt net cl t1 t2 a e0.
              NewOptions p opts = Inr opt
              \<and> CreateNetwork E (governing ctx opt) s0 = (Returned (Some net, cl, None), t1)
              \<and> CreateContainer E (governing ctx opt)
                   \<lparr>cfg_PackagePath = PackagePath opt, cfg_Network = Some net,
                    cfg_Aliases = Aliases opt, cfg_EnableVarSock = EnableVarSock opt,
                    cfg_SockPath = SockPath opt, cfg_NetworkName = dn_Name net,
                    cfg_DockerfilePath = []\<rparr> t1 = (Returned (a, Some e0), t2)
              \<and> wrapTimeoutError (ctx_Err E (governing ctx opt) (world t2)) (Some e0)
                   ''create container'' = Some err)
        \<or> (\<exists>opt net cl t1 c0 t2 t3 a e0.
              NewOptions p opts = Inr opt
              \<and> CreateNetwork E (governing ctx opt) s0 = (Returned (Some net, cl, None), t1)
              \<and> CreateContainer E (governing ctx opt)
                   \<lparr>cfg_PackagePath = PackagePath opt, cfg_Network = Some net,
                    cfg_Aliases = Aliases opt, cfg_EnableVarSock = EnableVarSock opt,
                    cfg_SockPath = SockPath opt, cfg_NetworkName = dn_Name net,
                    cfg_DockerfilePath = []\<rparr> t1 = (Returned (Some c0, None), t2)
              \<and> execTestWithStreaming E (governing ctx opt) c0 opt t2
                   = (Returned (a, Some e0), t3)
              \<and> wrapTimeoutError (ctx_Err E (governing ctx opt) (world t3)) (Some e0)
                   ''execute tests'' = Some err)"
    if r: "Run E ctx p opts s0 = (Returned (res, Some err), s')"
  proof (cases "NewOptions p opts")
    case (Inl e0)
    from Run_invalid_error[OF Inl, of E ctx s0] r Inl show ?thesis by simp
  next
    case (Inr opt)
    from Run_steps_of_Run[OF Inr r] obtain s'' where
      "Run_steps E (governing ctx opt) opt s0 = (Returned (res, Some err), s'')"
      by blast
    from Run_steps_error_tied[OF this] show ?thesis
      unfolding Inr by (elim conjE disjE exE; simp; blast)
  qed
  from wrap net con tst conv show ?thesis
    by blast
qed

theorem C4_wrapTimeoutError_classifies_witness:
  "fst (Run (sim_engine network_down) Background ''/pkg'' [] (start 0))
     = Returned (None, Some (WrapError ''failed to create network''
         (WrapError ''failed to create docker network'' (ErrorString ''daemon unreachable''))))
   \<and> fst (Run (sim_engine image_broken) Background ''/pkg'' [] (start 0))
     = Returned (None, Some (WrapError ''failed to create container''
         (WrapError ''failed to create container'' (ErrorString ''build failed''))))
   \<and> fst (Run (sim_engine failing_tests) Background ''/pkg'' [WithTimeout 120] (start 0))
     = Returned (None, Some (TimeoutError ''execute tests''
         (TimeoutError ''execute test command'' DeadlineExceeded)))
   \<and> (\<exists>net cl t1 c0 t2 t3 a.
         CreateNetwork (sim_engine failing_tests) (WithTimeoutCtx Background 120) (start 0)
           = (Returned (Some net, cl, None), t1)
         \<and> CreateContainer (sim_engine failing_tests) (WithTimeoutCtx Background 120)
              \<lparr>cfg_PackagePath = ''/pkg'', cfg_Network = Some net, cfg_Aliases = [],
               cfg_EnableVarSock = False, cfg_SockPath = ''/var/run/docker.sock'',
               cfg_NetworkName = dn_Name net, cfg_DockerfilePath = []\<rparr> t1
           = (Returned (Some c0, None), t2)
         \<and> execTestWithStreaming (sim_engine failing_tests) (WithTimeoutCtx Background 120) c0
              \<lparr>PackagePath = ''/pkg'', Pattern = ''./...'', Args = [], Aliases = [],
               EnableVarSock = False, SockPath = ''/var/run/docker.sock'', Timeout = 120\<rparr> t2
           = (Returned (a, Some (TimeoutError ''execute test command'' DeadlineExceeded)), t3)
         \<and> errors_Is (ctx_Err (sim_engine failing_tests) (WithTimeoutCtx Background 120) (world t3))
              DeadlineExceeded)"
proof -
  let ?dflt = "\<lparr>PackagePath = ''/pkg'', Pattern = ''./...'', Args = [], Aliases = [],
           EnableVarSock = False, SockPath = ''/var/run/docker.sock'',
           Timeout = 600000000000\<rparr>"
  let ?short = "\<lparr>PackagePath = ''/pkg'', Pattern = ''./...'', Args = [], Aliases = [],
           EnableVarSock = False, SockPath = ''/var/run/docker.sock'', Timeout = 120\<rparr>"
  let ?G = "WithTimeoutCtx Background 600000000000"
  let ?g = "WithTimeoutCtx Background 120"
  let ?net = "\<lparr>net_ID = 1, net_Name = ''net-1''\<rparr>"
  let ?n = "\<lparr>dn_Name = ''net-1'', dn_network = Some ?net\<rparr>"
  let ?cfg = "\<lparr>cfg_PackagePath = ''/pkg'', cfg_Network = Some ?n, cfg_Aliases = [],
               cfg_EnableVarSock = False, cfg_SockPath = ''/var/run/docker.sock'',
               cfg_NetworkName = ''net-1'', cfg_DockerfilePath = []\<rparr>"
  let ?c = "\<lparr>ctr = Some 7\<rparr>"
  have od: "NewOptions ''/pkg'' [] = Inr ?dflt"
    by code_simp
  have os: "NewOptions ''/pkg'' [WithTimeout 120] = Inr ?short"
    by code_simp
  have gd: "?G = governing Background ?dflt" and gs: "?g = governing Background ?short"
    by (simp_all add: governing_def)
  have live: "\<not> errors_Is None DeadlineExceeded"
    and dead: "errors_Is (Some DeadlineExceeded) DeadlineExceeded"
    by simp_all

  let ?N = "sim_engine network_down"
  let ?e1 = "WrapError ''failed to create docker network'' (ErrorString ''daemon unreachable'')"
  let ?n1 = "\<lparr>trace = [EvNetworkNew ?G], world = 1\<rparr> :: nat state"
  have n1: "CreateNetwork ?N ?G (start 0) = (Returned (None, None, Some ?e1), ?n1)"
    by (simp add: CreateNetwork_def bindP_def call_def emit_def return_def sim_engine_def
        timed_def network_down_def failing_tests_def start_def)
  have n2: "ctx_Err ?N ?G (world ?n1) = None"
    by (simp add: sim_engine_def sim_ctx_Err_def)
  note TN = C4_wrapTimeoutError_classifies[where ?c2.0 = None and e = ?e1
      and ph = "''create network''" and E = ?N and ctx = Background and p = "''/pkg''"
      and opts = "[]" and options = ?dflt and g = ?G and ?s0.0 = "start 0" and ?a1.0 = None
      and ?b1.0 = None and ?e1.0 = ?e1 and ?s1.0 = ?n1]
  from TN od gd n1 have "fst (Run ?N Background ''/pkg'' [] (start 0))
      = Returned (None, wrapTimeoutError (ctx_Err ?N ?G (world ?n1)) (Some ?e1) ''create network'')"
    by blast
  moreover from TN live have "wrapTimeoutError None (Some ?e1) ''create network''
      = Some (WrapError (''failed to '' @ ''create network'') ?e1)"
    by blast
  ultimately have r1: "fst (Run ?N Background ''/pkg'' [] (start 0))
      = Returned (None, Some (WrapError ''failed to create network'' ?e1))"
    using n2 by simp

  let ?I = "sim_engine image_broken"
  let ?e2 = "WrapError ''failed to create container'' (ErrorString ''build failed'')"
  let ?i1 = "\<lparr>trace = [EvNetworkNew ?G, EvNetworkCreated ?net], world = 1\<rparr> :: nat state"
  let ?i2 = "snd (CreateContainer ?I ?G ?cfg ?i1)"
  let ?i6 = "snd (discard (network_cleanup ?I ?net ?G) ?i2)"
  have i1: "CreateNetwork ?I ?G (start 0)
            = (Returned (Some ?n, Some (network_cleanup ?I ?net), None), ?i1)"
    by (simp add: CreateNetwork_def bindP_def call_def emit_def return_def sim_engine_def
        timed_def image_broken_def failing_tests_def start_def)
  have "fst (CreateContainer ?I ?G ?cfg ?i1) = Returned (None, Some ?e2)"
    by code_simp
  then have i2: "CreateContainer ?I ?G
             \<lparr>cfg_PackagePath = PackagePath ?dflt, cfg_Network = Some ?n,
              cfg_Aliases = Aliases ?dflt, cfg_EnableVarSock = EnableVarSock ?dflt,
              cfg_SockPath = SockPath ?dflt, cfg_NetworkName = dn_Name ?n,
              cfg_DockerfilePath = []\<rparr> ?i1 = (Returned (None, Some ?e2), ?i2)"
    by (simp add: prod_eq_iff)
  have "fst (discard (network_cleanup ?I ?net ?G) ?i2) = Returned ()"
    by code_simp
  then have i6: "discard (network_cleanup ?I ?net ?G) ?i2 = (Returned (), ?i6)"
    by (simp add: prod_eq_iff)
  have i3: "ctx_Err ?I ?G (world ?i2) = None"
    by code_simp
  note TI = C4_wrapTimeoutError_classifies[where ?c2.0 = None and e = ?e2
      and ph = "''create container''" and E = ?I and ctx = Background and p = "''/pkg''"
      and opts = "[]" and options = ?dflt and g = ?G and ?s0.0 = "start 0" and n = ?n
      and cleanup = "network_cleanup ?I ?net" and ?s1.0 = ?i1 and ?a2.0 = None
      and ?e2.0 = ?e2 and ?s2.0 = ?i2 and ?s6.0 = ?i6]
  from TI od gd i1 i2 i6 have "fst (Run ?I Background ''/pkg'' [] (start 0))
      = Returned (None, wrapTimeoutError (ctx_Err ?I ?G (world ?i2)) (Some ?e2) ''create container'')"
    by blast
  moreover from TI live have "wrapTimeoutError None (Some ?e2) ''create container''
      = Some (WrapError (''failed to '' @ ''create container'') ?e2)"
    by blast
  ultimately have r2: "fst (Run ?I Background ''/pkg'' [] (start 0))
      = Returned (None, Some (WrapError ''failed to create container'' ?e2))"
    using i3 by simp

  let ?E = "sim_engine failing_tests"
  let ?e3 = "TimeoutError ''execute test command'' DeadlineExceeded"
  let ?err = "TimeoutError ''execute tests'' ?e3"
  let ?t1 = "\<lparr>trace = [EvNetworkNew ?g, EvNetworkCreated ?net], world = 1\<rparr> :: nat state"
  let ?t2 = "snd (CreateContainer ?E ?g ?cfg ?t1)"
  let ?t3 = "snd (execTestWithStreaming ?E ?g ?c ?short ?t2)"
  let ?t5 = "snd (discard (Terminate ?E ?c ?g) ?t3)"
  let ?t6 = "snd (discard (network_cleanup ?E ?net ?g) ?t5)"
  let ?bad = "Run ?E Background ''/pkg'' [WithTimeout 120] (start 0)"
  have t1: "CreateNetwork ?E ?g (start 0)
            = (Returned (Some ?n, Some (network_cleanup ?E ?net), None), ?t1)"
    by (simp add: CreateNetwork_def bindP_def call_def emit_def return_def sim_engine_def
        timed_def failing_tests_def start_def)
  have "fst (CreateContainer ?E ?g ?cfg ?t1) = Returned (Some ?c, None)"
    by code_simp
  then have t2: "CreateContainer ?E ?g
             \<lparr>cfg_PackagePath = PackagePath ?short, cfg_Network = Some ?n,
              cfg_Aliases = Aliases ?short, cfg_EnableVarSock = EnableVarSock ?short,
              cfg_SockPath = SockPath ?short, cfg_NetworkName = dn_Name ?n,
              cfg_DockerfilePath = []\<rparr> ?t1 = (Returned (Some ?c, None), ?t2)"
    by (simp add: prod_eq_iff)
  have "fst (execTestWithStreaming ?E ?g ?c ?short ?t2) = Returned (None, Some ?e3)"
    by code_simp
  then have t3: "execTestWithStreaming ?E ?g ?c ?short ?t2 = (Returned (None, Some ?e3), ?t3)"
    by (simp add: prod_eq_iff)
  have "fst (discard (Terminate ?E ?c ?g) ?t3) = Returned ()"
    by code_simp
  then have t5: "discard (Terminate ?E ?c ?g) ?t3 = (Returned (), ?t5)"
    by (simp add: prod_eq_iff)
  have "fst (discard (network_cleanup ?E ?net ?g) ?t5) = Returned ()"
    by code_simp
  then have t6: "discard (network_cleanup ?E ?net ?g) ?t5 = (Returned (), ?t6)"
    by (simp add: prod_eq_iff)
  have t4: "ctx_Err ?E ?g (world ?t3) = Some DeadlineExceeded"
    by code_simp
  note TT = C4_wrapTimeoutError_classifies[where ?c1.0 = "Some DeadlineExceeded" and e = ?e3
      and ph = "''execute tests''" and E = ?E and ctx = Background and p = "''/pkg''"
      and opts = "[WithTimeout 120]" and options = ?short and g = ?g and ?s0.0 = "start 0"
      and n = ?n and cleanup = "network_cleanup ?E ?net" and ?s1.0 = ?t1 and container = ?c
      and ?s2.0 = ?t2 and ?a3.0 = None and ?e3.0 = ?e3 and ?s3.0 = ?t3 and ?s5.0 = ?t5
      and ?s6.0 = ?t6 and res = None and err = ?err and s' = "snd ?bad"]
  from TT os gs t1 t2 t3 t5 t6 have "fst ?bad
      = Returned (None, wrapTimeoutError (ctx_Err ?E ?g (world ?t3)) (Some ?e3) ''execute tests'')"
    by blast
  moreover from TT dead have "wrapTimeoutError (Some DeadlineExceeded) (Some ?e3) ''execute tests''
      = Some ?err"
    by blast
  ultimately have r3: "fst ?bad = Returned (None, Some ?err)"
    using t4 by simp
  then have b: "?bad = (Returned (None, Some ?err), snd ?bad)"
    by (simp add: prod_eq_iff)
  note conv = TT[THEN conjunct2, THEN conjunct2, THEN conjunct2, THEN conjunct2,
      THEN conjunct2, THEN conjunct2, THEN conjunct2, THEN conjunct2, THEN conjunct2,
      THEN conjunct2, THEN conjunct2, THEN conjunct2, THEN mp, OF b]
  from conv have
       "(\<exists>e0. NewOptions ''/pkg'' [WithTimeout 120] = Inl e0 \<and> ?err = WrapError ''invalid options'' e0)
        \<or> (\<exists>opt t1 a b e0.
              NewOptions ''/pkg'' [WithTimeout 120] = Inr opt
              \<and> CreateNetwork ?E (governing Background opt) (start 0) = (Returned (a, b, Some e0), t1)
              \<and> wrapTimeoutError (ctx_Err ?E (governing Background opt) (world t1)) (Some e0)
                   ''create network'' = Some ?err)
        \<or> (\<exists>opt net cl t1 t2 a e0.
              NewOptions ''/pkg'' [WithTimeout 120] = Inr opt
              \<and> CreateNetwork ?E (governing Background opt) (start 0) = (Returned (Some net, cl, None), t1)
              \<and> CreateContainer ?E (governing Background opt)
                   \<lparr>cfg_PackagePath = PackagePath opt, cfg_Network = Some net,
                    cfg_Aliases = Aliases opt, cfg_EnableVarSock = EnableVarSock opt,
                    cfg_SockPath = SockPath opt, cfg_NetworkName = dn_Name net,
                    cfg_DockerfilePath = []\<rparr> t1 = (Returned (a, Some e0), t2)
              \<and> wrapTimeoutError (ctx_Err ?E (governing Background opt) (world t2)) (Some e0)
                   ''create container'' = Some ?err)
        \<or> (\<exists>opt net cl t1 c0 t2 t3 a e0.
              NewOptions ''/pkg'' [WithTimeout 120] = Inr opt
              \<and> CreateNetwork ?E (governing Background opt) (start 0) = (Returned (Some net, cl, None), t1)
              \<and> CreateContainer ?E (governing Background opt)
                   \<lparr>cfg_PackagePath = PackagePath opt, cfg_Network = Some net,
                    cfg_Aliases = Aliases opt, cfg_EnableVarSock = EnableVarSock opt,
                    cfg_SockPath = SockPath opt, cfg_NetworkName = dn_Name net,
                    cfg_DockerfilePath = []\<rparr> t1 = (Returned (Some c0, None), t2)
              \<and> execTestWithStreaming ?E (governing Background opt) c0 opt t2
                   = (Returned (a, Some e0), t3)
              \<and> wrapTimeoutError (ctx_Err ?E (governing Background opt) (world t3)) (Some e0)
                   ''execute tests'' = Some ?err)"
    .
  then have r4: "\<exists>net cl t1 c0 t2 t3 a.
         CreateNetwork ?E ?g (start 0) = (Returned (Some net, cl, None), t1)
         \<and> CreateContainer ?E ?g
              \<lparr>cfg_PackagePath = ''/pkg'', cfg_Network = Some net, cfg_Aliases = [],
               cfg_EnableVarSock = False, cfg_SockPath = ''/var/run/docker.sock'',
               cfg_NetworkName = dn_Name net, cfg_DockerfilePath = []\<rparr> t1
           = (Returned (Some c0, None), t2)
         \<and> execTestWithStreaming ?E ?g c0 ?short t2 = (Returned (a, Some ?e3), t3)
         \<and> errors_Is (ctx_Err ?E ?g (world t3)) DeadlineExceeded"
    unfolding os sum.inject
    by (elim disjE exE conjE)
      (auto simp add: wrapTimeoutError_def governing_def split: if_splits)
  from r1 r2 r3 r4 show ?thesis
    by blast
qed

subsection \<open>Sessions without a handle\<close>

text \<open>
  C8: on a session whose handle is nil, \<open>execTestWithStreaming\<close>, \<open>ExecTest\<close>,
  \<open>CopyFileFromContainer\<close> and \<open>CopyCoverage\<close> return the error "container is nil" and
  leave the recorded calls and the world as they were, so no call on the engine was made;
  \<open>Terminate\<close> returns nil without a call, also when it is repeated.
\<close>

theorem C8_nil_handle_fails_fast:
  "execTestWithStreaming E ctx \<lparr>ctr = None\<rparr> options s
     = (Returned (None, Some (ErrorString ''container is nil'')), s)
   \<and> ExecTest E \<lparr>ctr = None\<rparr> ctx cfg s
     = (Returned (None, Some (ErrorString ''container is nil'')), s)
   \<and> CopyFileFromContainer E \<lparr>ctr = None\<rparr> ctx path s
     = (Returned (None, Some (ErrorString ''container is nil'')), s)
   \<and> CopyCoverage E \<lparr>ctr = None\<rparr> ctx s
     = (Returned (None, Some (ErrorString ''container is nil'')), s)
   \<and> Error (ErrorString ''container is nil'') = ''container is nil''
   \<and> Terminate E \<lparr>ctr = None\<rparr> ctx s = (Returned None, s)
   \<and> bindP (Terminate E \<lparr>ctr = None\<rparr> ctx) (\<lambda>err. Terminate E \<lparr>ctr = None\<rparr> ctx) s
     = (Returned None, s)"
  by (simp add: execTestWithStreaming_def ExecTest_def CopyFileFromContainer_def
      CopyCoverage_def Terminate_def return_def bindP_def)

subsection \<open>The configuration and the test command\<close>



lemma apply_opts_configured_timeout:
  "Timeout (apply_opts (map to_Option calls) options) = configured_timeout (Timeout options) calls"
proof (induction calls arbitrary: options)
  case Nil
  then show ?case by simp
next
  case (Cons c calls)
  show ?case
    by (cases c)
      (simp_all add: Cons.IH WithPattern_def WithArgs_def WithAliases_def WithVarSock_def
        WithSockPath_def WithTimeout_def)
qed

lemma configured_timeout_none:
  "\<forall>c\<in>set calls. \<not> is_timeout_call c \<Longrightarrow> configured_timeout current calls = current"
proof (induction calls arbitrary: current)
  case Nil
  then show ?case by simp
next
  case (Cons c calls)
  then show ?case by (cases c) simp_all
qed

lemma configured_timeout_last:
  "\<forall>c\<in>set calls2. \<not> is_timeout_call c \<Longrightarrow>
   configured_timeout current (calls1 @ CallWithTimeout d # calls2) = d"
proof (induction calls1 arbitrary: current)
  case Nil
  then show ?case by (simp add: configured_timeout_none)
next
  case (Cons c calls1)
  then show ?case by (cases c) simp_all
qed

lemma configured_timeout_cases:
  "((\<forall>c\<in>set calls. \<not> is_timeout_call c) \<and> configured_timeout current calls = current)
   \<or> (\<exists>calls1 d calls2. calls = calls1 @ CallWithTimeout d # calls2
         \<and> (\<forall>c\<in>set calls2. \<not> is_timeout_call c)
         \<and> configured_timeout current calls = d)"
proof (induction calls arbitrary: current)
  case Nil
  then show ?case by simp
next
  case (Cons c calls)
  have later: ?case
    if "calls = calls1 @ CallWithTimeout d # calls2" "\<forall>c\<in>set calls2. \<not> is_timeout_call c"
      "configured_timeout current (c # calls) = d" for calls1 d calls2
  proof -
    from that(1) have "c # calls = (c # calls1) @ CallWithTimeout d # calls2"
      by simp
    with that(2,3) show ?thesis by blast
  qed
  have other: ?case
    if nt: "\<not> is_timeout_call c"
      and eq: "\<And>cur. configured_timeout cur (c # calls) = configured_timeout cur calls"
  proof -
    from Cons.IH[of current] show ?thesis
    proof (elim disjE conjE exE)
      assume "\<forall>c\<in>set calls. \<not> is_timeout_call c" "configured_timeout current calls = current"
      with nt eq show ?thesis by simp
    next
      fix calls1 d calls2
      assume "calls = calls1 @ CallWithTimeout d # calls2"
        "\<forall>c\<in>set calls2. \<not> is_timeout_call c" "configured_timeout current calls = d"
      with eq show ?thesis by (intro later[of calls1 d calls2]) simp_all
    qed
  qed
  show ?case
  proof (cases c)
    case (CallWithTimeout t)
    from Cons.IH[of t] show ?thesis
    proof (elim disjE conjE exE)
      assume n: "\<forall>c\<in>set calls. \<not> is_timeout_call c" "configured_timeout t calls = t"
      have "c # calls = [] @ CallWithTimeout t # calls"
        using CallWithTimeout by simp
      moreover have "configured_timeout current (c # calls) = t"
        using CallWithTimeout n(2) by simp
      ultimately show ?thesis using n(1) by blast
    next
      fix calls1 d calls2
      assume "calls = calls1 @ CallWithTimeout d # calls2"
        "\<forall>c\<in>set calls2. \<not> is_timeout_call c" "configured_timeout t calls = d"
      with CallWithTimeout show ?thesis by (intro later[of calls1 d calls2]) simp_all
    qed
  qed (rule other; simp)+
qed

lemma step_event_context:
  "step_event g options ev \<Longrightarrow> event_context ev = Some c \<Longrightarrow> c = g"
  by (cases ev) auto

text \<open>
  C10 (as stated): an unbounded run requires \<open>WithTimeout 0\<close>. The code derives the
  context only when the timeout is greater than zero, so a negative timeout gives an
  unbounded run too: with \<open>WithTimeout (- 1)\<close> alone \<open>Run\<close> is its steps under the
  caller's context, and that context is the only one its calls on the engine carry.
\<close>

theorem C10_negative_timeout_counterexample:
  "NewOptions ''/pkg'' [WithTimeout (- 1)]
     = Inr \<lparr>PackagePath = ''/pkg'', Pattern = ''./...'', Args = [], Aliases = [],
            EnableVarSock = False, SockPath = ''/var/run/docker.sock'', Timeout = - 1\<rparr>
   \<and> Run (sim_engine failing_tests) Background ''/pkg'' [WithTimeout (- 1)] (start 0)
     = Run_steps (sim_engine failing_tests) Background
         \<lparr>PackagePath = ''/pkg'', Pattern = ''./...'', Args = [], Aliases = [],
          EnableVarSock = False, SockPath = ''/var/run/docker.sock'', Timeout = - 1\<rparr> (start 0)
   \<and> remdups (List.map_filter event_context
        (trace (snd (Run (sim_engine failing_tests) Background ''/pkg'' [WithTimeout (- 1)]
                       (start 0)))))
     = [Background]"
  by code_simp

text \<open>
  C10 (amended): without a \<open>WithTimeout\<close> call the timeout of the options is the default
  of ten minutes, which is greater than zero, so \<open>Run\<close> performs its steps under a context
  derived with that timeout. In general the timeout of the options is that of the last
  \<open>WithTimeout\<close> call, or the default: when it is greater than zero \<open>Run\<close> performs its
  steps under a context derived with it and every call on the engine carries that
  context; when it is zero or negative \<open>Run\<close> derives no context and every call carries
  the caller's context, and this happens only when the calls contain a \<open>WithTimeout\<close>
  call with a zero or negative duration that no later \<open>WithTimeout\<close> call follows.
\<close>

theorem C10_timeout_bound:
  "(pkg \<noteq> [] \<and> (\<forall>c\<in>set calls. \<not> is_timeout_call c) \<longrightarrow>
      (\<exists>options. NewOptions pkg (map to_Option calls) = Inr options
         \<and> Timeout options = DefaultTimeout
         \<and> Run E ctx pkg (map to_Option calls)
             = deferring (cancel (WithTimeoutCtx ctx DefaultTimeout))
                 (Run_steps E (WithTimeoutCtx ctx DefaultTimeout) options)))
   \<and> DefaultTimeout = 10 * Minute \<and> DefaultTimeout = 600000000000 \<and> DefaultTimeout > 0
   \<and> (pkg \<noteq> [] \<longrightarrow>
      (\<exists>options. NewOptions pkg (map to_Option calls) = Inr options
         \<and> Timeout options = configured_timeout DefaultTimeout calls
         \<and> (Timeout options > 0 \<longrightarrow>
              Run E ctx pkg (map to_Option calls)
              = deferring (cancel (WithTimeoutCtx ctx (Timeout options)))
                  (Run_steps E (WithTimeoutCtx ctx (Timeout options)) options))
         \<and> (Timeout options \<le> 0 \<longrightarrow>
              Run E ctx pkg (map to_Option calls) = Run_steps E ctx options)))
   \<and> (pkg \<noteq> [] \<and> configured_timeout DefaultTimeout calls > 0
        \<and> Run E ctx pkg (map to_Option calls) (start w) = (r, s') \<longrightarrow>
        (\<forall>ev\<in>set (trace s'). \<forall>c. event_context ev = Some c \<longrightarrow>
           c = WithTimeoutCtx ctx (configured_timeout DefaultTimeout calls)))
   \<and> (pkg \<noteq> [] \<and> configured_timeout DefaultTimeout calls \<le> 0
        \<and> Run E ctx pkg (map to_Option calls) (start w) = (r, s') \<longrightarrow>
        (\<forall>ev\<in>set (trace s'). \<forall>c. event_context ev = Some c \<longrightarrow> c = ctx))
   \<and> ((\<forall>c\<in>set calls. \<not> is_timeout_call c) \<longrightarrow>
        configured_timeout DefaultTimeout calls = DefaultTimeout)
   \<and> ((\<forall>c\<in>set calls2. \<not> is_timeout_call c) \<longrightarrow>
        configured_timeout DefaultTimeout (calls1 @ CallWithTimeout d # calls2) = d)
   \<and> (configured_timeout DefaultTimeout calls \<le> 0 \<longrightarrow>
        (\<exists>calls3 t calls4. calls = calls3 @ CallWithTimeout t # calls4 \<and> t \<le> 0
           \<and> (\<forall>c\<in>set calls4. \<not> is_timeout_call c)))"
proof -
  have dflt: "DefaultTimeout = 10 * Minute \<and> DefaultTimeout = 600000000000 \<and> DefaultTimeout > 0"
    by (simp add: DefaultTimeout_def Minute_def Second_def)
  have opt: "\<exists>options. NewOptions pkg (map to_Option calls) = Inr options
         \<and> Timeout options = configured_timeout DefaultTimeout calls
         \<and> (Timeout options > 0 \<longrightarrow>
              Run E ctx pkg (map to_Option calls)
              = deferring (cancel (WithTimeoutCtx ctx (Timeout options)))
                  (Run_steps E (WithTimeoutCtx ctx (Timeout options)) options))
         \<and> (Timeout options \<le> 0 \<longrightarrow>
              Run E ctx pkg (map to_Option calls) = Run_steps E ctx options)"
    if "pkg \<noteq> []"
    using that by (simp add: NewOptions_def Run_def apply_opts_configured_timeout)
  have none: "configured_timeout DefaultTimeout calls = DefaultTimeout"
    if "\<forall>c\<in>set calls. \<not> is_timeout_call c"
    using that by (rule configured_timeout_none)
  have d1: "\<exists>options. NewOptions pkg (map to_Option calls) = Inr options
         \<and> Timeout options = DefaultTimeout
         \<and> Run E ctx pkg (map to_Option calls)
             = deferring (cancel (WithTimeoutCtx ctx DefaultTimeout))
                 (Run_steps E (WithTimeoutCtx ctx DefaultTimeout) options)"
    if "pkg \<noteq> [] \<and> (\<forall>c\<in>set calls. \<not> is_timeout_call c)"
  proof -
    from that have p: "pkg \<noteq> []" and n: "\<forall>c\<in>set calls. \<not> is_timeout_call c"
      by blast+
    from opt[OF p] none[OF n] dflt show ?thesis
      by auto
  qed
  have ev: "\<forall>ev\<in>set (trace s'). \<forall>c. event_context ev = Some c \<longrightarrow>
           c = (if configured_timeout DefaultTimeout calls > 0
                then WithTimeoutCtx ctx (configured_timeout DefaultTimeout calls) else ctx)"
    if p: "pkg \<noteq> []" and run: "Run E ctx pkg (map to_Option calls) (start w) = (r, s')"
  proof -
    from opt[OF p] obtain options where o: "NewOptions pkg (map to_Option calls) = Inr options"
      "Timeout options = configured_timeout DefaultTimeout calls" by blast
    then have g: "governing ctx options
        = (if configured_timeout DefaultTimeout calls > 0
           then WithTimeoutCtx ctx (configured_timeout DefaultTimeout calls) else ctx)"
      by (simp add: governing_def)
    from Run_trace[OF o(1) run] show ?thesis
      unfolding g by (metis step_event_context)
  qed
  have b1: "\<forall>ev\<in>set (trace s'). \<forall>c. event_context ev = Some c \<longrightarrow>
           c = WithTimeoutCtx ctx (configured_timeout DefaultTimeout calls)"
    if "pkg \<noteq> [] \<and> configured_timeout DefaultTimeout calls > 0
        \<and> Run E ctx pkg (map to_Option calls) (start w) = (r, s')"
    using ev that by simp
  have b0: "\<forall>ev\<in>set (trace s'). \<forall>c. event_context ev = Some c \<longrightarrow> c = ctx"
    if "pkg \<noteq> [] \<and> configured_timeout DefaultTimeout calls \<le> 0
        \<and> Run E ctx pkg (map to_Option calls) (start w) = (r, s')"
    using ev that by simp
  have last: "configured_timeout DefaultTimeout (calls1 @ CallWithTimeout d # calls2) = d"
    if "\<forall>c\<in>set calls2. \<not> is_timeout_call c"
    using that by (rule configured_timeout_last)
  have req: "\<exists>calls3 t calls4. calls = calls3 @ CallWithTimeout t # calls4 \<and> t \<le> 0
           \<and> (\<forall>c\<in>set calls4. \<not> is_timeout_call c)"
    if "configured_timeout DefaultTimeout calls \<le> 0"
    using configured_timeout_cases[of calls DefaultTimeout] that dflt by auto
  from d1 dflt opt b1 b0 none last req show ?thesis
    by blast
qed

theorem C10_timeout_bound_witness:
  "EvNetworkNew (WithTimeoutCtx Background 600000000000)
       \<in> set (trace (snd (Run (sim_engine failing_tests) Background ''/pkg''
                 (map to_Option [CallWithArgs [''-v'']]) (start 0))))
   \<and> configured_timeout DefaultTimeout [CallWithTimeout 0, CallWithTimeout 120] = 120
   \<and> EvNetworkNew (WithTimeoutCtx Background 120)
       \<in> set (trace (snd (Run (sim_engine failing_tests) Background ''/pkg''
                 (map to_Option [CallWithTimeout 0, CallWithTimeout 120]) (start 0))))
   \<and> configured_timeout DefaultTimeout [CallWithTimeout (- 1), CallWithArgs [''-v'']] = - 1
   \<and> EvNetworkNew Background
       \<in> set (trace (snd (Run (sim_engine failing_tests) Background ''/pkg''
                 (map to_Option [CallWithTimeout (- 1), CallWithArgs [''-v'']]) (start 0))))
   \<and> Run (sim_engine failing_tests) Background ''/pkg''
        (map to_Option [CallWithTimeout (- 1), CallWithArgs [''-v'']])
      = Run_steps (sim_engine failing_tests) Background
          \<lparr>PackagePath = ''/pkg'', Pattern = ''./...'', Args = [''-v''], Aliases = [],
           EnableVarSock = False, SockPath = ''/var/run/docker.sock'', Timeout = - 1\<rparr>
   \<and> (\<exists>calls3 t calls4.
         [CallWithTimeout (- 1), CallWithArgs [''-v'']] = calls3 @ CallWithTimeout t # calls4
         \<and> t \<le> 0)"
proof -
  let ?E = "sim_engine failing_tests"
  let ?A = "[CallWithArgs [''-v'']]"
  let ?B = "[CallWithTimeout (- 1), CallWithArgs [''-v'']]"
  let ?C = "[CallWithTimeout 0, CallWithTimeout 120]"
  let ?rA = "Run ?E Background ''/pkg'' (map to_Option ?A) (start 0)"
  let ?rB = "Run ?E Background ''/pkg'' (map to_Option ?B) (start 0)"
  let ?rC = "Run ?E Background ''/pkg'' (map to_Option ?C) (start 0)"
  let ?oB = "\<lparr>PackagePath = ''/pkg'', Pattern = ''./...'', Args = [''-v''], Aliases = [],
           EnableVarSock = False, SockPath = ''/var/run/docker.sock'', Timeout = - 1\<rparr>"
  have p: "''/pkg'' \<noteq> []"
    by simp
  have qA: "\<forall>c\<in>set ?A. \<not> is_timeout_call c" and qB: "\<forall>c\<in>set [CallWithArgs [''-v'']]. \<not> is_timeout_call c"
    and qC: "\<forall>c\<in>set ([] :: config_call list). \<not> is_timeout_call c"
    by simp_all
  obtain cA where eA: "EvNetworkNew cA \<in> set (trace (snd ?rA))"
  proof
    show "EvNetworkNew (WithTimeoutCtx Background 600000000000) \<in> set (trace (snd ?rA))"
      by code_simp
  qed
  obtain cB where eB: "EvNetworkNew cB \<in> set (trace (snd ?rB))"
  proof
    show "EvNetworkNew Background \<in> set (trace (snd ?rB))"
      by code_simp
  qed
  obtain cC where eC: "EvNetworkNew cC \<in> set (trace (snd ?rC))"
  proof
    show "EvNetworkNew (WithTimeoutCtx Background 120) \<in> set (trace (snd ?rC))"
      by code_simp
  qed
  have oB: "NewOptions ''/pkg'' (map to_Option ?B) = Inr ?oB"
    by code_simp

  note TA = C10_timeout_bound[where pkg = "''/pkg''" and calls = ?A and E = ?E
      and ctx = Background and w = 0 and r = "fst ?rA" and s' = "snd ?rA"]
  from TA have d: "DefaultTimeout = 600000000000"
    by blast
  from TA qA have nA: "configured_timeout DefaultTimeout ?A = DefaultTimeout"
    by blast
  with TA p d have "\<forall>ev\<in>set (trace (snd ?rA)). \<forall>c. event_context ev = Some c \<longrightarrow>
           c = WithTimeoutCtx Background (configured_timeout DefaultTimeout ?A)"
    unfolding prod.collapse by simp
  with eA nA d have "cA = WithTimeoutCtx Background 600000000000"
    by fastforce
  with eA have r1: "EvNetworkNew (WithTimeoutCtx Background 600000000000) \<in> set (trace (snd ?rA))"
    by simp

  note TC = C10_timeout_bound[where pkg = "''/pkg''" and calls = ?C and E = ?E
      and ctx = Background and w = 0 and r = "fst ?rC" and s' = "snd ?rC"
      and ?calls1.0 = "[CallWithTimeout 0]" and d = 120 and ?calls2.0 = "[]"]
  from TC qC have nC: "configured_timeout DefaultTimeout ([CallWithTimeout 0] @ CallWithTimeout 120 # []) = 120"
    by blast
  then have r2: "configured_timeout DefaultTimeout ?C = 120"
    by simp
  with TC p have "\<forall>ev\<in>set (trace (snd ?rC)). \<forall>c. event_context ev = Some c \<longrightarrow>
           c = WithTimeoutCtx Background (configured_timeout DefaultTimeout ?C)"
    unfolding prod.collapse by simp
  with eC r2 have "cC = WithTimeoutCtx Background 120"
    by fastforce
  with eC have r3: "EvNetworkNew (WithTimeoutCtx Background 120) \<in> set (trace (snd ?rC))"
    by simp

  note TB = C10_timeout_bound[where pkg = "''/pkg''" and calls = ?B and E = ?E
      and ctx = Background and w = 0 and r = "fst ?rB" and s' = "snd ?rB"
      and ?calls1.0 = "[]" and d = "- 1" and ?calls2.0 = "[CallWithArgs [''-v'']]"]
  from TB qB have "configured_timeout DefaultTimeout ([] @ CallWithTimeout (- 1) # [CallWithArgs [''-v'']]) = - 1"
    by blast
  then have r4: "configured_timeout DefaultTimeout ?B = - 1"
    by simp
  with TB p have "\<forall>ev\<in>set (trace (snd ?rB)). \<forall>c. event_context ev = Some c \<longrightarrow> c = Background"
    unfolding prod.collapse by simp
  with eB have "cB = Background"
    by fastforce
  with eB have r5: "EvNetworkNew Background \<in> set (trace (snd ?rB))"
    by simp
  from TB p obtain options where o: "NewOptions ''/pkg'' (map to_Option ?B) = Inr options"
    "Timeout options = configured_timeout DefaultTimeout ?B"
    "Timeout options \<le> 0 \<longrightarrow> Run ?E Background ''/pkg'' (map to_Option ?B) = Run_steps ?E Background options"
    by blast
  from o(1) oB have "options = ?oB"
    by simp
  with o(2,3) r4 have r6: "Run ?E Background ''/pkg'' (map to_Option ?B) = Run_steps ?E Background ?oB"
    by simp
  from TB r4 have "\<exists>calls3 t calls4. ?B = calls3 @ CallWithTimeout t # calls4 \<and> t \<le> 0
           \<and> (\<forall>c\<in>set calls4. \<not> is_timeout_call c)"
    by simp
  then have r7: "\<exists>calls3 t calls4. ?B = calls3 @ CallWithTimeout t # calls4 \<and> t \<le> 0"
    by blast
  from r1 r2 r3 r4 r5 r6 r7 show ?thesis
    by blast
qed

subsection \<open>Cleanup\<close>

text \<open>
  C6: in every run of \<open>Run\<close>, whether it returns a result, returns an error or panics,
  in which the network and the container were created, the cleanup calls on the engine
  are exactly two: the termination of that container, then the removal of that network.
  An engine whose cleanup calls report no error gives the same run in every respect, so an
  error reported by a cleanup call never changes what \<open>Run\<close> returns.
\<close>

theorem C6_cleanup_order:
  "(Run E ctx pkg opts (start w) = (r, s')
      \<and> EvNetworkCreated net \<in> set (trace s') \<and> EvContainerCreated h \<in> set (trace s')
    \<longrightarrow> (\<exists>c. filter is_cleanup (trace s') = [EvTerminate h c, EvNetworkRemove net c]))
   \<and> Run (cleanup_succeeding E) ctx pkg opts = Run E ctx pkg opts"
proof -
  have "\<exists>c. filter is_cleanup (trace s') = [EvTerminate h c, EvNetworkRemove net c]"
    if run: "Run E ctx pkg opts (start w) = (r, s')"
      and n: "EvNetworkCreated net \<in> set (trace s')"
      and c: "EvContainerCreated h \<in> set (trace s')"
  proof -
    from Run_cleanup_order[of E ctx pkg opts] run
    obtain evs c where "trace s' = trace (start w) @ evs" "cleanup_ordered c evs"
      unfolding emits_def by blast
    then have "trace s' = evs" by (simp add: start_def)
    with \<open>cleanup_ordered c evs\<close> n c show ?thesis
      unfolding cleanup_ordered_def by blast
  qed
  with Run_silenced show ?thesis by blast
qed

theorem C6_cleanup_order_witness:
  "EvNetworkCreated \<lparr>net_ID = 1, net_Name = ''net-1''\<rparr>
     \<in> set (trace (snd (Run (sim_engine failing_tests) Background ''/pkg'' [] (start 0))))
   \<and> EvContainerCreated 7
     \<in> set (trace (snd (Run (sim_engine failing_tests) Background ''/pkg'' [] (start 0))))
   \<and> (\<exists>c. filter is_cleanup
              (trace (snd (Run (sim_engine failing_tests) Background ''/pkg'' [] (start 0))))
            = [EvTerminate 7 c, EvNetworkRemove \<lparr>net_ID = 1, net_Name = ''net-1''\<rparr> c])"
proof -
  let ?run = "Run (sim_engine failing_tests) Background ''/pkg'' [] (start 0)"
  have n: "EvNetworkCreated \<lparr>net_ID = 1, net_Name = ''net-1''\<rparr> \<in> set (trace (snd ?run))"
    by code_simp
  have c: "EvContainerCreated 7 \<in> set (trace (snd ?run))"
    by code_simp
  have r: "?run = (fst ?run, snd ?run)"
    by simp
  from C6_cleanup_order[of "sim_engine failing_tests" Background "''/pkg''" "[]" 0
      "fst ?run" "snd ?run" "\<lparr>net_ID = 1, net_Name = ''net-1''\<rparr>" 7]
  have "Run (sim_engine failing_tests) Background ''/pkg'' [] (start 0) = (fst ?run, snd ?run)
      \<and> EvNetworkCreated \<lparr>net_ID = 1, net_Name = ''net-1''\<rparr> \<in> set (trace (snd ?run))
      \<and> EvContainerCreated 7 \<in> set (trace (snd ?run))
    \<longrightarrow> (\<exists>c. filter is_cleanup (trace (snd ?run))
            = [EvTerminate 7 c, EvNetworkRemove \<lparr>net_ID = 1, net_Name = ''net-1''\<rparr> c])"
    by (rule conjunct1)
  with n c r show ?thesis by blast
qed

lemma Run_cleanup_context:
  assumes "NewOptions pkg opts = Inr options" and "Timeout options > 0"
    and "Run E ctx pkg opts (start w) = (r, s')"
    and "ev \<in> set (trace s')" and "is_cleanup ev"
  shows "event_context ev = Some (WithTimeoutCtx ctx (Timeout options))"
proof -
  from Run_trace[OF assms(1,3)] assms(2,4)
  have "step_event (WithTimeoutCtx ctx (Timeout options)) options ev"
    by (simp add: governing_def)
  with assms(5) show ?thesis by (cases ev) simp_all
qed

text \<open>
  C5 (the code at a failing input): a run with a timeout of 120 ns on the simulated
  engine, where creating the network and the container takes 101 ns and the tests would
  take 50 ns more. The deadline passes during the tests, and both cleanup calls are then
  made with the derived context, whose deadline has passed, and not with the caller's
  context, which is still live.
\<close>

theorem C5_cleanup_under_expired_context:
  "filter is_cleanup
     (trace (snd (Run (sim_engine failing_tests) Background ''/pkg'' [WithTimeout 120] (start 0))))
   = [EvTerminate 7 (WithTimeoutCtx Background 120),
      EvNetworkRemove \<lparr>net_ID = 1, net_Name = ''net-1''\<rparr> (WithTimeoutCtx Background 120)]
   \<and> ctx_Err (sim_engine failing_tests) (WithTimeoutCtx Background 120)
        (world (snd (Run (sim_engine failing_tests) Background ''/pkg'' [WithTimeout 120] (start 0))))
      = Some DeadlineExceeded
   \<and> ctx_Err (sim_engine failing_tests) Background
        (world (snd (Run (sim_engine failing_tests) Background ''/pkg'' [WithTimeout 120] (start 0))))
      = None"
  by code_simp

subsection \<open>Copying a file that cannot be retrieved\<close>

lemma CopyFileFromContainer_engine_error:
  assumes "ctr_CopyFileFromContainer E h ctx path (world s) = (Returned (Inl err), w')"
  shows "fst (CopyFileFromContainer E \<lparr>ctr = Some h\<rparr> ctx path s) = Returned (None, None)"
  using assms by (simp add: CopyFileFromContainer_def bindP_def call_def return_def)

text \<open>
  C3 (the code at a failing input): the container is alive and the engine's copy call
  fails with "connection reset by peer", which is not a missing file; \<open>CopyFileFromContainer\<close>
  and \<open>CopyCoverage\<close> return nil bytes and a nil error all the same.
\<close>

theorem C3_engine_failure_reported_as_absent:
  "sc_copy copy_broken = Inl (ErrorString ''connection reset by peer'')
   \<and> fst (CopyFileFromContainer (sim_engine copy_broken) \<lparr>ctr = Some 7\<rparr> Background
            ''/tmp/coverage.txt'' (start 0)) = Returned (None, None)
   \<and> fst (CopyCoverage (sim_engine copy_broken) \<lparr>ctr = Some 7\<rparr> Background (start 0))
       = Returned (None, None)"
  by code_simp

subsection \<open>Failing tests\<close>






subsection \<open>The context archive\<close>

lemma Base_Dockerfile: "Base ''Dockerfile'' = ''Dockerfile''"
  by (simp add: Base_def)

lemma names_append_current:
  "map (\<lambda>e. Name (fst e)) (append_current b es) = map (\<lambda>e. Name (fst e)) es"
proof (cases "es = []")
  case True
  then show ?thesis by (simp add: append_current_def)
next
  case False
  then have "es = butlast es @ [last es]" by simp
  then have "map (\<lambda>e. Name (fst e)) es
             = map (\<lambda>e. Name (fst e)) (butlast es) @ [Name (fst (last es))]"
    by (metis (no_types, lifting) list.simps(8,9) map_append)
  with False show ?thesis by (simp add: append_current_def)
qed

lemma WriteHeader_ok:
  "WriteHeader tw hdr = (None, tw1) \<Longrightarrow>
   entries tw1 = entries tw @ [(hdr, [])]
   \<and> nb tw1 = (if Typeflag hdr = TypeReg then Size hdr else 0)"
  by (auto simp add: WriteHeader_def split: if_splits)

lemma WriteHeader_entries:
  "WriteHeader tw hdr = (r, tw1) \<Longrightarrow>
   entries tw1 = entries tw \<or> entries tw1 = entries tw @ [(hdr, [])]"
  by (auto simp add: WriteHeader_def split: if_splits)

lemma append_current_snoc: "append_current b (es @ [(hdr, c)]) = es @ [(hdr, c @ b)]"
  by (simp add: append_current_def)

lemma Write_ok:
  "Write tw b = (None, tw1) \<Longrightarrow>
   entries tw1 = append_current b (entries tw) \<and> nb tw1 = nb tw - length b \<and> length b \<le> nb tw"
  by (auto simp add: Write_def split: if_splits)

lemma Write_names:
  "Write tw b = (r, tw1) \<Longrightarrow>
   map (\<lambda>e. Name (fst e)) (entries tw1) = map (\<lambda>e. Name (fst e)) (entries tw)"
  by (auto simp add: Write_def names_append_current split: if_splits)

lemma io_Copy_names:
  "io_Copy tw file = (r, tw1) \<Longrightarrow>
   map (\<lambda>e. Name (fst e)) (entries tw1) = map (\<lambda>e. Name (fst e)) (entries tw)"
  by (auto simp add: io_Copy_def dest: Write_names split: prod.splits option.splits)

lemma io_Copy_ok:
  "io_Copy tw file = (None, tw1) \<Longrightarrow>
   entries tw1 = append_current (f_data file) (entries tw)
   \<and> nb tw1 = nb tw - length (f_data file) \<and> length (f_data file) \<le> nb tw"
  by (auto simp add: io_Copy_def dest: Write_ok split: prod.splits option.splits)

text \<open>What one call of the walk function does to the names in the archive.\<close>

lemma walkFn_skip:
  "err \<noteq> None \<or> path = ''.'' \<or> Base path = ''Dockerfile'' \<Longrightarrow>
   snd (walkFn path d err tw) = tw"
  by (auto simp add: walkFn_def split: option.splits)

lemma walkFn_names_base:
  assumes "walkFn path d err tw = (r, tw')"
  shows "map (\<lambda>e. Name (fst e)) (entries tw') = map (\<lambda>e. Name (fst e)) (entries tw)
       \<or> (Base path \<noteq> ''Dockerfile''
          \<and> map (\<lambda>e. Name (fst e)) (entries tw') = map (\<lambda>e. Name (fst e)) (entries tw) @ [path])"
proof (cases "err \<noteq> None \<or> path = ''.'' \<or> Base path = ''Dockerfile''")
  case True
  from walkFn_skip[OF True, of d tw] assms show ?thesis by simp
next
  case False
  then have e: "err = None" and p: "path \<noteq> ''.''" and b: "Base path \<noteq> ''Dockerfile''"
    by auto
  show ?thesis
  proof (cases d)
    case (RegularFile perm sz f)
    with assms e p b show ?thesis
      by (auto simp add: walkFn_def FileInfoHeader_def WriteHeader_def io_Copy_def Write_def
          names_append_current split: sum.splits option.splits if_splits prod.splits)
  next
    case (Directory perm dirs)
    with assms e p b show ?thesis
      by (auto simp add: walkFn_def FileInfoHeader_def WriteHeader_def split: if_splits)
  next
    case (Symlink perm target)
    with assms e p b show ?thesis
      by (auto simp add: walkFn_def FileInfoHeader_def WriteHeader_def
          split: sum.splits if_splits)
  next
    case (Special t perm)
    with assms e p b show ?thesis
      by (cases t) (auto simp add: walkFn_def FileInfoHeader_def WriteHeader_def split: if_splits)
  next
    case (NoInfo x)
    with assms e p b show ?thesis
      by (auto simp add: walkFn_def)
  qed
qed

lemma walkFn_names:
  assumes "walkFn path d err tw = (r, tw')"
  shows "map (\<lambda>e. Name (fst e)) (entries tw') = map (\<lambda>e. Name (fst e)) (entries tw)
       \<or> (kept_path path
          \<and> map (\<lambda>e. Name (fst e)) (entries tw') = map (\<lambda>e. Name (fst e)) (entries tw) @ [path])"
proof (cases "path = ''.''")
  case True
  then have "snd (walkFn path d err tw) = tw"
    by (intro walkFn_skip) simp
  with assms have "tw' = tw" by simp
  then show ?thesis by simp
next
  case False
  with walkFn_names_base[OF assms] show ?thesis
    unfolding kept_path_def by blast
qed

lemma walkFn_no_recipe:
  assumes "walkFn path d err tw = (r, tw')"
    and "\<forall>e\<in>set (entries tw). kept_path (Name (fst e))"
  shows "\<forall>e\<in>set (entries tw'). kept_path (Name (fst e))"
proof -
  let ?names = "\<lambda>w. map (\<lambda>e. Name (fst e)) (entries w)"
  have old: "\<forall>n\<in>set (?names tw). kept_path n"
    using assms(2) by simp
  from walkFn_names[OF assms(1)]
  consider "?names tw' = ?names tw"
    | "kept_path path" "?names tw' = ?names tw @ [path]"
    by blast
  then have "\<forall>n\<in>set (?names tw'). kept_path n"
  proof cases
    case 1
    with old show ?thesis by simp
  next
    case 2
    from 2(2) have "set (?names tw') = insert path (set (?names tw))" by simp
    with 2(1) old show ?thesis by simp
  qed
  then show ?thesis by simp
qed

lemma walk_no_recipe:
  "walkDir fn name d tw = (r, tw') \<Longrightarrow> fn = walkFn \<Longrightarrow>
     \<forall>e\<in>set (entries tw). kept_path (Name (fst e)) \<Longrightarrow>
     \<forall>e\<in>set (entries tw'). kept_path (Name (fst e))"
  "walkDirs fn name dirs tw = (r, tw') \<Longrightarrow> fn = walkFn \<Longrightarrow>
     \<forall>e\<in>set (entries tw). kept_path (Name (fst e)) \<Longrightarrow>
     \<forall>e\<in>set (entries tw'). kept_path (Name (fst e))"
proof (induction fn name d tw and fn name dirs tw arbitrary: r tw' and r tw'
    rule: walkDir_walkDirs.induct)
  case (1 fn name perm dirs tw)
  obtain r1 tw1 where f: "walkFn name (Directory perm (Inr dirs)) None tw = (r1, tw1)"
    by (cases "walkFn name (Directory perm (Inr dirs)) None tw")
  from walkFn_no_recipe[OF f "1.prems"(3)]
  have ok1: "\<forall>e\<in>set (entries tw1). kept_path (Name (fst e))" .
  show ?case
  proof (cases r1)
    case None
    with f "1.prems" have "walkDirs fn name dirs tw1 = (r, tw')" by simp
    from "1.IH"[OF _ _ this "1.prems"(2) ok1] f None "1.prems"(2) show ?thesis by simp
  next
    case (Some e)
    with f "1.prems" ok1 show ?thesis by simp
  qed
next
  case (2 fn name perm err tw)
  obtain r1 tw1 where f: "walkFn name (Directory perm (Inl err)) None tw = (r1, tw1)"
    by (cases "walkFn name (Directory perm (Inl err)) None tw")
  from walkFn_no_recipe[OF f "2.prems"(3)]
  have ok1: "\<forall>e\<in>set (entries tw1). kept_path (Name (fst e))" .
  show ?case
  proof (cases r1)
    case None
    with f "2.prems" have "walkFn name (Directory perm (Inl err)) (Some err) tw1 = (r, tw')"
      by simp
    from walkFn_no_recipe[OF this ok1] show ?thesis .
  next
    case (Some e)
    with f "2.prems" ok1 show ?thesis by simp
  qed
next
  case (3 fn name perm sz f tw)
  then show ?case using walkFn_no_recipe by simp
next
  case (4 fn name perm target tw)
  then show ?case using walkFn_no_recipe by simp
next
  case (5 fn name t perm tw)
  then show ?case using walkFn_no_recipe by simp
next
  case (6 fn name e tw)
  then show ?case using walkFn_no_recipe by simp
next
  case (7 fn name tw)
  then show ?case by simp
next
  case (8 fn name n1 d1 rest tw)
  obtain r1 tw1 where f: "walkDir fn (Join name n1) d1 tw = (r1, tw1)"
    by (cases "walkDir fn (Join name n1) d1 tw")
  from "8.IH"(1)[OF f "8.prems"(2,3)]
  have ok1: "\<forall>e\<in>set (entries tw1). kept_path (Name (fst e))" .
  show ?case
  proof (cases r1)
    case None
    with f "8.prems" have "walkDirs fn name rest tw1 = (r, tw')" by simp
    from "8.IH"(2)[OF _ _ this "8.prems"(2) ok1] f None show ?thesis by simp
  next
    case (Some e)
    with f "8.prems" ok1 show ?thesis by simp
  qed
qed

text \<open>A successful call of the walk function on a path it does not skip adds the entry.\<close>

lemma walkFn_entry_base:
  assumes "walkFn path d None tw = (None, tw')"
    and "path \<noteq> ''.''" and "Base path \<noteq> ''Dockerfile''"
  shows "\<exists>e. expected_entry path d = Some e \<and> entries tw' = entries tw @ [e]"
proof (cases d)
  case (RegularFile perm sz f)
  with assms show ?thesis
    by (auto simp add: walkFn_def FileInfoHeader_def WriteHeader_def io_Copy_def Write_def
        append_current_def split: sum.splits option.splits if_splits prod.splits)
next
  case (Directory perm dirs)
  with assms show ?thesis
    by (auto simp add: walkFn_def FileInfoHeader_def WriteHeader_def split: if_splits)
next
  case (Symlink perm target)
  with assms show ?thesis
    by (auto simp add: walkFn_def FileInfoHeader_def WriteHeader_def
        split: sum.splits if_splits)
next
  case (Special t perm)
  with assms show ?thesis
    by (cases t) (auto simp add: walkFn_def FileInfoHeader_def WriteHeader_def split: if_splits)
next
  case (NoInfo x)
  with assms show ?thesis
    by (auto simp add: walkFn_def)
qed

lemma walkFn_entry:
  assumes "walkFn path d None tw = (None, tw')" and "kept_path path"
  shows "\<exists>e. expected_entry path d = Some e \<and> entries tw' = entries tw @ [e]"
  using assms walkFn_entry_base unfolding kept_path_def by blast

lemma walkFn_grows:
  assumes "walkFn path d None tw = (None, tw')"
  shows "\<exists>es. entries tw' = entries tw @ es"
proof (cases "kept_path path")
  case False
  then have "snd (walkFn path d None tw) = tw"
    unfolding kept_path_def by (intro walkFn_skip) simp
  with assms show ?thesis by simp
next
  case True
  with walkFn_entry[OF assms] show ?thesis by blast
qed

lemma walkFn_reports: "walkFn path d (Some err) tw = (Some err, tw)"
  by (simp add: walkFn_def)

lemma walk_entries:
  "walkDir fn name d tw = (None, tw') \<Longrightarrow> fn = walkFn \<Longrightarrow>
     (\<exists>es. entries tw' = entries tw @ es)
     \<and> (\<forall>(p, d')\<in>set (nodes_under name d). kept_path p \<longrightarrow>
          (\<exists>e. expected_entry p d' = Some e \<and> e \<in> set (entries tw')))"
  "walkDirs fn name dirs tw = (None, tw') \<Longrightarrow> fn = walkFn \<Longrightarrow>
     (\<exists>es. entries tw' = entries tw @ es)
     \<and> (\<forall>(p, d')\<in>set (nodes_under_list name dirs). kept_path p \<longrightarrow>
          (\<exists>e. expected_entry p d' = Some e \<and> e \<in> set (entries tw')))"
proof (induction fn name d tw and fn name dirs tw arbitrary: tw' and tw'
    rule: walkDir_walkDirs.induct)
  case (1 fn name perm dirs tw)
  let ?d = "Directory perm (Inr dirs)"
  obtain r1 tw1 where f: "walkFn name ?d None tw = (r1, tw1)"
    by (cases "walkFn name ?d None tw")
  with "1.prems" have r1: "r1 = None" and rest: "walkDirs fn name dirs tw1 = (None, tw')"
    by (auto split: option.splits)
  from f r1 have f': "walkFn name ?d None tw = (None, tw1)" by simp
  from "1.IH"[OF _ _ rest "1.prems"(2)] f r1 "1.prems"(2)
  have ih: "(\<exists>es. entries tw' = entries tw1 @ es)"
    "\<forall>(p, d')\<in>set (nodes_under_list name dirs). kept_path p \<longrightarrow>
          (\<exists>e. expected_entry p d' = Some e \<and> e \<in> set (entries tw'))"
    by simp_all
  from walkFn_grows[OF f'] ih(1) have grow: "\<exists>es. entries tw' = entries tw @ es"
    by auto
  have self: "\<exists>e. expected_entry name ?d = Some e \<and> e \<in> set (entries tw')"
    if "kept_path name"
    using walkFn_entry[OF f' that] ih(1) by auto
  from grow self ih(2) show ?case by auto
next
  case (2 fn name perm err tw)
  let ?d = "Directory perm (Inl err)"
  obtain r1 tw1 where f: "walkFn name ?d None tw = (r1, tw1)"
    by (cases "walkFn name ?d None tw")
  with "2.prems" have False
    by (auto simp add: walkFn_reports split: option.splits)
  then show ?case ..
next
  case (3 fn name perm sz f tw)
  then have f: "walkFn name (RegularFile perm sz f) None tw = (None, tw')" by simp
  from walkFn_grows[OF f] walkFn_entry[OF f] show ?case by auto
next
  case (4 fn name perm target tw)
  then have f: "walkFn name (Symlink perm target) None tw = (None, tw')" by simp
  from walkFn_grows[OF f] walkFn_entry[OF f] show ?case by auto
next
  case (5 fn name t perm tw)
  then have f: "walkFn name (Special t perm) None tw = (None, tw')" by simp
  from walkFn_grows[OF f] walkFn_entry[OF f] show ?case by auto
next
  case (6 fn name e tw)
  then have f: "walkFn name (NoInfo e) None tw = (None, tw')" by simp
  from walkFn_grows[OF f] walkFn_entry[OF f] show ?case by auto
next
  case (7 fn name tw)
  then show ?case by simp
next
  case (8 fn name n1 d1 rest tw)
  obtain r1 tw1 where f: "walkDir fn (Join name n1) d1 tw = (r1, tw1)"
    by (cases "walkDir fn (Join name n1) d1 tw")
  with "8.prems" have r1: "r1 = None" and rest: "walkDirs fn name rest tw1 = (None, tw')"
    by (auto split: option.splits)
  from f r1 have f': "walkDir fn (Join name n1) d1 tw = (None, tw1)" by simp
  from "8.IH"(1)[OF f' "8.prems"(2)]
  have ih1: "\<exists>es. entries tw1 = entries tw @ es"
    "\<forall>(p, d')\<in>set (nodes_under (Join name n1) d1). kept_path p \<longrightarrow>
          (\<exists>e. expected_entry p d' = Some e \<and> e \<in> set (entries tw1))"
    by simp_all
  from "8.IH"(2)[OF _ _ rest "8.prems"(2)] f r1
  have ih2: "\<exists>es. entries tw' = entries tw1 @ es"
    "\<forall>(p, d')\<in>set (nodes_under_list name rest). kept_path p \<longrightarrow>
          (\<exists>e. expected_entry p d' = Some e \<and> e \<in> set (entries tw'))"
    by simp_all
  from ih1(1) ih2(1) have grow: "\<exists>es. entries tw' = entries tw @ es" by auto
  from ih2(1) have sub: "set (entries tw1) \<subseteq> set (entries tw')" by auto
  with ih1(2) have first: "\<forall>(p, d')\<in>set (nodes_under (Join name n1) d1).
       kept_path p \<longrightarrow>
          (\<exists>e. expected_entry p d' = Some e \<and> e \<in> set (entries tw'))"
    by fast
  from grow first ih2(2) show ?case by auto
qed

text \<open>What a successful CreateTarContext did.\<close>

lemma CreateTarContext_success:
  assumes "CreateTarContext fs contextPath dockerfilePath = Inr archive"
  shows "\<exists>tw content.
           WalkDir (DirFS fs contextPath) ''.'' walkFn NewWriter = (None, tw)
           \<and> archive = entries tw @ [recipe_entry content]
           \<and> (dockerfilePath = [] \<longrightarrow> content = dockerfileTemplate)
           \<and> (dockerfilePath \<noteq> [] \<longrightarrow>
                ReadFile fs (if IsAbs dockerfilePath then dockerfilePath
                             else Join contextPath dockerfilePath) = Inr content)"
  using assms
  unfolding CreateTarContext_def recipe_entry_def
  by (auto simp add: Let_def WriteHeader_def Write_def Close_def append_current_def
      split: sum.splits prod.splits option.splits if_splits)

lemma WalkDir_success:
  assumes "WalkDir fsys ''.'' walkFn NewWriter = (None, tw)"
  shows "\<exists>root. fsys = Inr root \<and> walkDir walkFn ''.'' root NewWriter = (None, tw)"
  using assms by (cases fsys) (simp_all add: WalkDir_def walkFn_reports)

text \<open>
  C1 (as stated): for a tree that already contains a "Dockerfile" with content C, the
  archive's "Dockerfile" entry is never C, whatever the override. With the override
  "Dockerfile", relative to the tree, the override file is the tree's own file: the tree
  under /pkg holds a "Dockerfile" with content "FROM original:latest", and that is the
  content of the archive's last entry, the recipe.
\<close>

theorem C1_recipe_counterexample:
  "nodes_under ''.'' pkg_tree ! 1 = (''Dockerfile'', regular ''FROM original:latest'')
   \<and> map_sum id last (CreateTarContext pkg_fs ''/pkg'' ''Dockerfile'')
       = Inr (recipe_entry ''FROM original:latest'')"
  by code_simp

text \<open>
  C1 (amended): an archive that CreateTarContext produces ends with one recipe entry at
  the path "Dockerfile", appended after the walk, and no entry before it has that name, so
  a "Dockerfile" of the tree is never copied by the walk. The content of the recipe entry
  is the built-in default when the override is empty, and otherwise the bytes that
  \<open>ReadFile\<close> gives for the override path, taken as it is when absolute and joined to the
  tree path when relative.
\<close>

theorem C1_recipe_entry:
  "CreateTarContext fs contextPath dockerfilePath = Inr archive \<longrightarrow>
     (\<exists>pre content.
        archive = pre @ [recipe_entry content]
        \<and> (\<forall>e\<in>set pre. Name (fst e) \<noteq> ''Dockerfile'')
        \<and> (dockerfilePath = [] \<longrightarrow> content = dockerfileTemplate)
        \<and> (dockerfilePath \<noteq> [] \<longrightarrow>
             ReadFile fs (if IsAbs dockerfilePath then dockerfilePath
                          else Join contextPath dockerfilePath) = Inr content))"
proof
  assume a: "CreateTarContext fs contextPath dockerfilePath = Inr archive"
  from CreateTarContext_success[OF a] obtain tw content where
    w: "WalkDir (DirFS fs contextPath) ''.'' walkFn NewWriter = (None, tw)"
    and ar: "archive = entries tw @ [recipe_entry content]"
    and c: "dockerfilePath = [] \<longrightarrow> content = dockerfileTemplate"
      "dockerfilePath \<noteq> [] \<longrightarrow>
         ReadFile fs (if IsAbs dockerfilePath then dockerfilePath
                      else Join contextPath dockerfilePath) = Inr content"
    by blast
  from WalkDir_success[OF w] obtain root where
    "walkDir walkFn ''.'' root NewWriter = (None, tw)" by blast
  from walk_no_recipe(1)[OF this refl]
  have "\<forall>e\<in>set (entries tw). kept_path (Name (fst e))"
    by (simp add: NewWriter_def)
  then have "\<forall>e\<in>set (entries tw). Name (fst e) \<noteq> ''Dockerfile''"
    unfolding kept_path_def by (metis Base_Dockerfile)
  with ar c show "\<exists>pre content.
        archive = pre @ [recipe_entry content]
        \<and> (\<forall>e\<in>set pre. Name (fst e) \<noteq> ''Dockerfile'')
        \<and> (dockerfilePath = [] \<longrightarrow> content = dockerfileTemplate)
        \<and> (dockerfilePath \<noteq> [] \<longrightarrow>
             ReadFile fs (if IsAbs dockerfilePath then dockerfilePath
                          else Join contextPath dockerfilePath) = Inr content)"
    by (intro exI[of _ "entries tw"] exI[of _ content]) simp
qed

theorem C1_recipe_entry_witness:
  "(\<exists>pre. CreateTarContext pkg_fs ''/pkg'' ''/etc/external.Dockerfile''
             = Inr (pre @ [recipe_entry ''FROM golang:1.21''])
          \<and> ''Dockerfile'' \<notin> set (map (\<lambda>e. Name (fst e)) pre))
   \<and> (\<exists>pre. CreateTarContext pkg_fs ''/pkg'' [] = Inr (pre @ [recipe_entry dockerfileTemplate])
          \<and> ''Dockerfile'' \<notin> set (map (\<lambda>e. Name (fst e)) pre))"
proof -
  have ok1: "\<not> isl (CreateTarContext pkg_fs ''/pkg'' ''/etc/external.Dockerfile'')"
    by code_simp
  then obtain a1 where a1: "CreateTarContext pkg_fs ''/pkg'' ''/etc/external.Dockerfile'' = Inr a1"
    by (cases "CreateTarContext pkg_fs ''/pkg'' ''/etc/external.Dockerfile''") simp_all
  have abs: "IsAbs ''/etc/external.Dockerfile''"
    by (simp add: IsAbs_def)
  have rd: "ReadFile pkg_fs ''/etc/external.Dockerfile'' = Inr ''FROM golang:1.21''"
    by (simp add: pkg_fs_def)
  from C1_recipe_entry[of pkg_fs "''/pkg''" "''/etc/external.Dockerfile''" a1] a1 abs rd
  obtain pre1 where p1: "a1 = pre1 @ [recipe_entry ''FROM golang:1.21'']"
    "\<forall>e\<in>set pre1. Name (fst e) \<noteq> ''Dockerfile''"
    by auto
  have ok2: "\<not> isl (CreateTarContext pkg_fs ''/pkg'' [])"
    by code_simp
  then obtain a2 where a2: "CreateTarContext pkg_fs ''/pkg'' [] = Inr a2"
    by (cases "CreateTarContext pkg_fs ''/pkg'' []") simp_all
  from C1_recipe_entry[of pkg_fs "''/pkg''" "[]" a2] a2
  obtain pre2 where p2: "a2 = pre2 @ [recipe_entry dockerfileTemplate]"
    "\<forall>e\<in>set pre2. Name (fst e) \<noteq> ''Dockerfile''"
    by auto
  from p1(2) have n1: "''Dockerfile'' \<notin> set (map (\<lambda>e. Name (fst e)) pre1)"
    by (force simp add: image_iff)
  from p2(2) have n2: "''Dockerfile'' \<notin> set (map (\<lambda>e. Name (fst e)) pre2)"
    by (force simp add: image_iff)
  from a1 p1(1) n1 a2 p2(1) n2 show ?thesis
    by blast
qed

text \<open>
  C2 (as stated): every file under the tree has an entry except the root and a top-level
  "Dockerfile". The tree under /pkg holds the file "subdir/Dockerfile", which is not at
  the top level, and the archive has no entry for it.
\<close>

theorem C2_nested_recipe_counterexample:
  "nodes_under ''.'' pkg_tree ! 5 = (''subdir/Dockerfile'', regular ''FROM nested:latest'')
   \<and> map_sum id (map (\<lambda>e. Name (fst e))) (CreateTarContext pkg_fs ''/pkg'' [])
       = Inr [''go.mod'', ''latest'', ''subdir'', ''subdir/helper.go'', ''Dockerfile'']"
  by code_simp

text \<open>
  C2 (amended): an archive that CreateTarContext produces holds, for every node under the
  tree whose path is not the root and whose last element is not "Dockerfile", at any
  depth, the entry of that node: for a directory a directory entry, for a regular file an
  entry with the bytes of the file, for a symbolic link an entry that records the target of
  the link; and every entry but the last has such a path.
\<close>

theorem C2_archive_entries:
  "CreateTarContext fs contextPath dockerfilePath = Inr archive \<and> DirFS fs contextPath = Inr root
   \<longrightarrow> (\<forall>(p, d)\<in>set (nodes_under ''.'' root). kept_path p \<longrightarrow>
          (\<exists>e. expected_entry p d = Some e \<and> e \<in> set archive))
       \<and> (\<forall>e\<in>set (butlast archive).
             kept_path (Name (fst e)))"
proof
  assume a: "CreateTarContext fs contextPath dockerfilePath = Inr archive
             \<and> DirFS fs contextPath = Inr root"
  from CreateTarContext_success[of fs contextPath dockerfilePath archive] a obtain tw content
    where w: "WalkDir (DirFS fs contextPath) ''.'' walkFn NewWriter = (None, tw)"
      and ar: "archive = entries tw @ [recipe_entry content]"
    by blast
  from w a have wd: "walkDir walkFn ''.'' root NewWriter = (None, tw)"
    by (simp add: WalkDir_def)
  from walk_entries(1)[OF wd refl]
  have "\<forall>(p, d)\<in>set (nodes_under ''.'' root). kept_path p \<longrightarrow>
          (\<exists>e. expected_entry p d = Some e \<and> e \<in> set (entries tw))"
    by blast
  moreover from ar have "set (entries tw) \<subseteq> set archive"
    by auto
  ultimately
  have 1: "\<forall>(p, d)\<in>set (nodes_under ''.'' root). kept_path p \<longrightarrow>
          (\<exists>e. expected_entry p d = Some e \<and> e \<in> set archive)"
    by fast
  from walk_no_recipe(1)[OF wd refl] ar
  have 2: "\<forall>e\<in>set (butlast archive).
             kept_path (Name (fst e))"
    by (simp add: NewWriter_def)
  from 1 2 show "(\<forall>(p, d)\<in>set (nodes_under ''.'' root). kept_path p \<longrightarrow>
          (\<exists>e. expected_entry p d = Some e \<and> e \<in> set archive))
       \<and> (\<forall>e\<in>set (butlast archive).
             kept_path (Name (fst e)))"
    by blast
qed

theorem C2_archive_entries_witness:
  "\<exists>archive. CreateTarContext pkg_fs ''/pkg'' [] = Inr archive
     \<and> (\<lparr>Typeflag = TypeDir, Name = ''subdir'', Linkname = [], Size = 0, Mode = 493\<rparr>, [])
         \<in> set archive
     \<and> (\<lparr>Typeflag = TypeReg, Name = ''subdir/helper.go'', Linkname = [], Size = 14,
          Mode = 420\<rparr>, ''package subdir'') \<in> set archive
     \<and> (\<lparr>Typeflag = TypeSymlink, Name = ''latest'', Linkname = ''subdir/helper.go'',
          Size = 0, Mode = 511\<rparr>, []) \<in> set archive"
proof -
  let ?dir = "(\<lparr>Typeflag = TypeDir, Name = ''subdir'', Linkname = [], Size = 0, Mode = 493\<rparr>, [])"
  let ?file = "(\<lparr>Typeflag = TypeReg, Name = ''subdir/helper.go'', Linkname = [], Size = 14,
          Mode = 420\<rparr>, ''package subdir'')"
  let ?link = "(\<lparr>Typeflag = TypeSymlink, Name = ''latest'', Linkname = ''subdir/helper.go'',
          Size = 0, Mode = 511\<rparr>, [])"
  have ok: "\<not> isl (CreateTarContext pkg_fs ''/pkg'' [])"
    by code_simp
  then obtain archive where a: "CreateTarContext pkg_fs ''/pkg'' [] = Inr archive"
    by (cases "CreateTarContext pkg_fs ''/pkg'' []") simp_all
  have root: "DirFS pkg_fs ''/pkg'' = Inr pkg_tree"
    by (simp add: pkg_fs_def)
  from C2_archive_entries[of pkg_fs "''/pkg''" "[]" archive pkg_tree] a root
  have all: "\<forall>(p, d)\<in>set (nodes_under ''.'' pkg_tree). kept_path p \<longrightarrow>
          (\<exists>e. expected_entry p d = Some e \<and> e \<in> set archive)"
    by blast
  have "list_ex (\<lambda>(p, d). kept_path p \<and> expected_entry p d = Some ?dir)
          (nodes_under ''.'' pkg_tree)"
    by code_simp
  then obtain p1 d1 where "(p1, d1) \<in> set (nodes_under ''.'' pkg_tree)" "kept_path p1"
    "expected_entry p1 d1 = Some ?dir"
    unfolding list_ex_iff by blast
  with all have e1: "?dir \<in> set archive" by fastforce
  have "list_ex (\<lambda>(p, d). kept_path p \<and> expected_entry p d = Some ?file)
          (nodes_under ''.'' pkg_tree)"
    by code_simp
  then obtain p2 d2 where "(p2, d2) \<in> set (nodes_under ''.'' pkg_tree)" "kept_path p2"
    "expected_entry p2 d2 = Some ?file"
    unfolding list_ex_iff by blast
  with all have e2: "?file \<in> set archive" by fastforce
  have "list_ex (\<lambda>(p, d). kept_path p \<and> expected_entry p d = Some ?link)
          (nodes_under ''.'' pkg_tree)"
    by code_simp
  then obtain p3 d3 where "(p3, d3) \<in> set (nodes_under ''.'' pkg_tree)" "kept_path p3"
    "expected_entry p3 d3 = Some ?link"
    unfolding list_ex_iff by blast
  with all have e3: "?link \<in> set archive" by fastforce
  from a e1 e2 e3 show ?thesis by blast
qed

end
